theory Spec2Isabelle
  imports Complex_Main
begin

section \<open>The weather-based energy simulator (src/utils/weatherBasedEnergyData.ts)\<close>

text \<open>
  A shallow embedding of the class \<^verbatim>\<open>WeatherBasedEnergySimulator\<close>. A JavaScript
  \<^verbatim>\<open>number\<close> is read as a real number: the arithmetic is exact, and the values
  \<^verbatim>\<open>NaN\<close> and \<^verbatim>\<open>Infinity\<close> do not exist. The one place where a finite input
  makes the program leave the finite numbers, the product behind the solar efficiency,
  is modelled a second time with overflow, together with the other two clamped fields of
  the prediction. The wall clock (\<^verbatim>\<open>new Date()\<close>) and
  \<^verbatim>\<open>Math.random()\<close> are arguments: the month, the hour and the time stamp of the call,
  and the sequence \<open>rnd 0, rnd 1, \<dots>\<close> of the values that the successive calls of
  \<^verbatim>\<open>Math.random()\<close> return. The mutable field \<^verbatim>\<open>batteryLevel\<close> is passed in and returned.
  The fields \<^verbatim>\<open>historicalWeatherPattern\<close>, \<^verbatim>\<open>lastIoTUpdate\<close> and \<^verbatim>\<open>location\<close> are never read
  and are left out.
\<close>

subsection \<open>Data\<close>

datatype condition = sunny | partly_cloudy | cloudy | dusty | rainy | clear_night

record ForecastEntry =
  fc_condition :: condition
  fc_temperature :: real
  fc_windSpeed :: real
  fc_cloudCover :: real

text \<open>
  A forecast entry reaches \<^verbatim>\<open>calculateSimplifiedEfficiency\<close> through a parameter of type
  \<^verbatim>\<open>any\<close>, and the forecast object is tested with \<^verbatim>\<open>!weather.forecast\<close>: both may be
  absent at run time, so both are options.
\<close>

record Forecast =
  next1h :: "ForecastEntry option"
  next6h :: "ForecastEntry option"
  next24h :: "ForecastEntry option"

record WeatherData =
  condition :: condition
  temperature :: real
  humidity :: real
  windSpeed :: real
  cloudCover :: real
  uvIndex :: real
  visibility :: real
  forecast :: "Forecast option"

datatype recommendation = charge_now | discharge_now | maintain | prepare_for_peak

record EnergyPrediction =
  solarEfficiency :: real
  windEfficiency :: real
  loadMultiplier :: real
  batteryOptimalCharge :: real
  recommendation :: recommendation

record IoTSensorData =
  panelTemperature :: real
  panelTilt :: real
  windTurbineRPM :: real
  ambientLight :: real
  batteryVoltage :: real
  inverterEfficiency :: real
  loadPowerFactor :: real

text \<open>
  \<^verbatim>\<open>SystemMode\<close> is a type of the compiler only; at run time the field holds whatever
  string the caller passed.
\<close>

record simulator =
  mode :: string
  weatherApiKey :: string
  batteryLevel :: real

datatype error = Error string | TypeError

datatype season = winter | summer | monsoon | postMonsoon

record seasonFactors =
  months :: "nat list"
  solarBoost :: real
  heatLoad :: real

datatype balanceLabel = Surplus | Deficit | Balanced

record EnergyData =
  timestamp :: string
  solar_gen_kW :: real
  wind_gen_kW :: real
  load_demand_kW :: real
  battery_soc_percent :: real
  grid_import_kW :: real
  grid_export_kW :: real
  weather :: condition
  forecast_label :: balanceLabel
  temperature_C :: real
  carbon_saved_kg :: real

record EnhancedEnergyData =
  energyData :: EnergyData
  weatherData :: WeatherData
  prediction :: EnergyPrediction
  iotData :: "IoTSensorData option"
  result_mode :: string

subsection \<open>Construction, mode and season\<close>

definition Math_round :: "real \<Rightarrow> real" where
  "Math_round x = of_int \<lfloor>x + 1 / 2\<rfloor>"

definition new_simulator :: "string \<Rightarrow> string \<Rightarrow> simulator" where
  "new_simulator m apiKey = \<lparr>mode = m, weatherApiKey = apiKey, batteryLevel = 60\<rparr>"

text \<open>
  \<^verbatim>\<open>setMode\<close> has no \<^verbatim>\<open>throw\<close>: the result is the error-or-state sum so that a
  rejection could be told from an acceptance. The optional key is stored when it is
  truthy, that is present and not empty.
\<close>

definition setMode :: "simulator \<Rightarrow> string \<Rightarrow> string option \<Rightarrow> error + simulator" where
  "setMode s m apiKey =
     (let s1 = s\<lparr>mode := m\<rparr>
      in Inr (case apiKey of
                None \<Rightarrow> s1
              | Some k \<Rightarrow> if k \<noteq> [] then s1\<lparr>weatherApiKey := k\<rparr> else s1))"

definition rajashtanSeasonalFactors :: "season \<Rightarrow> seasonFactors" where
  "rajashtanSeasonalFactors sn =
     (case sn of
        winter \<Rightarrow> \<lparr>months = [12, 1, 2], solarBoost = 0.9, heatLoad = 0.3\<rparr>
      | summer \<Rightarrow> \<lparr>months = [3, 4, 5, 6], solarBoost = 1.1, heatLoad = 1.5\<rparr>
      | monsoon \<Rightarrow> \<lparr>months = [7, 8, 9], solarBoost = 0.6, heatLoad = 0.8\<rparr>
      | postMonsoon \<Rightarrow> \<lparr>months = [10, 11], solarBoost = 1.0, heatLoad = 0.9\<rparr>)"

definition getCurrentSeason :: "nat \<Rightarrow> season" where
  "getCurrentSeason month =
     (if month \<in> set (months (rajashtanSeasonalFactors winter)) then winter
      else if month \<in> set (months (rajashtanSeasonalFactors summer)) then summer
      else if month \<in> set (months (rajashtanSeasonalFactors monsoon)) then monsoon
      else postMonsoon)"

fun getSeasonalBaseTemperature :: "season \<Rightarrow> real" where
  "getSeasonalBaseTemperature winter = 18"
| "getSeasonalBaseTemperature summer = 35"
| "getSeasonalBaseTemperature monsoon = 28"
| "getSeasonalBaseTemperature postMonsoon = 25"

fun getTemperatureRange :: "season \<Rightarrow> real" where
  "getTemperatureRange winter = 8"
| "getTemperatureRange summer = 12"
| "getTemperatureRange monsoon = 6"
| "getTemperatureRange postMonsoon = 9"

subsection \<open>Weather synthesis\<close>

text \<open>
  \<^verbatim>\<open>getConditionForHour\<close> ignores its argument and draws once. The forecast draws, in the
  order of the object literal: condition, wind speed and cloud cover of each entry.
\<close>

definition getConditionForHour :: "season \<Rightarrow> real \<Rightarrow> condition" where
  "getConditionForHour sn r =
     (if sn = monsoon then (if r < 0.4 then rainy else cloudy)
      else if sn = summer then (if r < 0.7 then sunny else dusty)
      else (if r < 0.6 then sunny else partly_cloudy))"

definition generateShortTermForecast :: "real \<Rightarrow> season \<Rightarrow> (nat \<Rightarrow> real) \<Rightarrow> Forecast" where
  "generateShortTermForecast currentHour sn rnd =
     (let baseTemp = getSeasonalBaseTemperature sn;
          tempRange = getTemperatureRange sn
      in \<lparr>next1h = Some
            \<lparr>fc_condition = getConditionForHour sn (rnd 0),
             fc_temperature =
               Math_round ((baseTemp + sin ((currentHour + 1 - 6) / 12 * pi) * tempRange) * 10) / 10,
             fc_windSpeed = Math_round ((3 + rnd 1 * 5) * 10) / 10,
             fc_cloudCover = Math_round ((20 + rnd 2 * 40) * 10) / 10\<rparr>,
          next6h = Some
            \<lparr>fc_condition = getConditionForHour sn (rnd 3),
             fc_temperature =
               Math_round ((baseTemp + sin ((currentHour + 6 - 6) / 12 * pi) * tempRange) * 10) / 10,
             fc_windSpeed = Math_round ((4 + rnd 4 * 6) * 10) / 10,
             fc_cloudCover = Math_round ((10 + rnd 5 * 30) * 10) / 10\<rparr>,
          next24h = Some
            \<lparr>fc_condition = getConditionForHour sn (rnd 6),
             fc_temperature = Math_round (baseTemp * 10) / 10,
             fc_windSpeed = Math_round ((3 + rnd 7 * 7) * 10) / 10,
             fc_cloudCover = Math_round ((25 + rnd 8 * 35) * 10) / 10\<rparr>\<rparr>)"

text \<open>
  The monsoon branch draws twice (cloud cover, then the rain test), the other branches
  once; \<open>k\<close> is the number of draws made when the wind speed is drawn.
\<close>

definition generateRealisticWeatherData :: "nat \<Rightarrow> real \<Rightarrow> (nat \<Rightarrow> real) \<Rightarrow> WeatherData" where
  "generateRealisticWeatherData month hour rnd =
     (let sn = getCurrentSeason month;
          baseTemp = getSeasonalBaseTemperature sn;
          dailyVariation = sin ((hour - 6) / 12 * pi) * getTemperatureRange sn;
          temp = baseTemp + dailyVariation + (rnd 0 - 0.5) * 3;
          cloud = (if sn = monsoon then 60 + rnd 1 * 40
                   else if sn = summer then rnd 1 * 30
                   else rnd 1 * 50);
          drawn = (if sn = monsoon
                   then (if rnd 2 < 0.3 then rainy
                         else if cloud > 80 then cloudy else partly_cloudy)
                   else if sn = summer
                   then (if cloud < 10 then sunny
                         else if cloud < 20 then partly_cloudy else dusty)
                   else (if cloud < 15 then sunny
                         else if cloud < 35 then partly_cloudy else cloudy));
          k = (if sn = monsoon then 3 else 2);
          cond = (if hour < 6 \<or> hour > 19 then clear_night else drawn);
          wind = (if sn = summer then 3 + rnd k * 8 else 2 + rnd k * 5);
          humid = (if sn = monsoon then 70 + rnd (k + 1) * 25
                   else if sn = summer then 20 + rnd (k + 1) * 30
                   else 40 + rnd (k + 1) * 35);
          uv = (if cond = sunny then min 11 (6 + sin ((hour - 6) / 12 * pi) * 5)
                else if cond = partly_cloudy then min 8 (4 + sin ((hour - 6) / 12 * pi) * 3)
                else 2);
          vis = (if cond = dusty then 2 + rnd (k + 2) * 3
                 else if cond = rainy then 1 + rnd (k + 2) * 2
                 else 8 + rnd (k + 2) * 7);
          fc = generateShortTermForecast hour sn (\<lambda>i. rnd (k + 3 + i))
      in \<lparr>condition = cond,
          temperature = Math_round (temp * 10) / 10,
          humidity = Math_round (humid * 10) / 10,
          windSpeed = Math_round (wind * 10) / 10,
          cloudCover = Math_round (cloud * 10) / 10,
          uvIndex = Math_round (uv * 10) / 10,
          visibility = Math_round (vis * 10) / 10,
          forecast = Some fc\<rparr>)"

text \<open>The number of draws one synthesis makes: 5 or 6 of its own and 9 of the forecast.\<close>

definition weatherDraws :: "nat \<Rightarrow> nat" where
  "weatherDraws month = (if getCurrentSeason month = monsoon then 15 else 14)"

text \<open>
  The sensor synthesis draws for the ambient light only under the three daylight
  conditions, then four times for the fields of the object literal.
\<close>

definition generateIoTSensorData :: "WeatherData \<Rightarrow> (nat \<Rightarrow> real) \<Rightarrow> IoTSensorData" where
  "generateIoTSensorData w rnd =
     (let pt = temperature w + 15 + uvIndex w * 2;
          light = (if condition w = sunny then 80000 + rnd 0 * 20000
                   else if condition w = partly_cloudy then 40000 + rnd 0 * 30000
                   else if condition w = cloudy then 10000 + rnd 0 * 15000
                   else 500);
          k = (if condition w \<in> {sunny, partly_cloudy, cloudy} then 1 else 0)
      in \<lparr>panelTemperature = Math_round (pt * 10) / 10,
          panelTilt = 30,
          windTurbineRPM = Math_round (windSpeed w * 25 + rnd k * 50),
          ambientLight = Math_round light,
          batteryVoltage = 48.0 + (rnd (k + 1) - 0.5) * 2,
          inverterEfficiency = 94 + rnd (k + 2) * 4,
          loadPowerFactor = 0.85 + rnd (k + 3) * 0.1\<rparr>)"

subsection \<open>Efficiency prediction\<close>

record SimplifiedEfficiency =
  solarEff :: real
  windEff :: real
  loadMult :: real

text \<open>
  Reading a property of an absent forecast entry raises a \<^verbatim>\<open>TypeError\<close>; it is the only
  way in which \<^verbatim>\<open>calculateSimplifiedEfficiency\<close> fails. \<^verbatim>\<open>Math.pow(x, 1.5)\<close> is taken only
  for a positive \<open>x\<close>, where it is \<open>x powr 1.5\<close>.
\<close>

definition calculateSimplifiedEfficiency ::
  "nat \<Rightarrow> ForecastEntry option \<Rightarrow> error + SimplifiedEfficiency" where
  "calculateSimplifiedEfficiency month forecastData =
     (case forecastData of
        None \<Rightarrow> Inl TypeError
      | Some fd \<Rightarrow>
          (let seasonData = rajashtanSeasonalFactors (getCurrentSeason month);
               s1 = 1.0 * ((100 - fc_cloudCover fd) / 100);
               tempDerating = max 0.7 (1 - max 0 (fc_temperature fd - 25) * 0.004);
               s2 = s1 * tempDerating;
               s3 = s2 * solarBoost seasonData;
               w1 = (if fc_windSpeed fd < 3 then 0.1
                     else if fc_windSpeed fd > 15 then 0.3
                     else min 1.0 ((fc_windSpeed fd / 12) ^ 2));
               w2 = w1 * (1 + (25 - fc_temperature fd) * 0.005);
               l1 = (if fc_temperature fd > 30
                     then 1 + ((fc_temperature fd - 30) / 10) powr 1.5 * heatLoad seasonData
                     else if fc_temperature fd < 15
                     then 1 + (15 - fc_temperature fd) * 0.1 * heatLoad seasonData
                     else 1.0)
           in Inr \<lparr>solarEff = max 0 (min 1 s3),
                   windEff = max 0 (min 1 w2),
                   loadMult = max 0.3 (min 2.5 l1)\<rparr>))"

text \<open>
  The body of the \<^verbatim>\<open>try\<close> of \<^verbatim>\<open>calculateOptimalBatteryLevel\<close>: the three forecast
  entries are evaluated in order, and the first failure ends the block.
\<close>

definition optimalBatteryLevel_try :: "nat \<Rightarrow> Forecast \<Rightarrow> error + real" where
  "optimalBatteryLevel_try month f =
     (case calculateSimplifiedEfficiency month (next1h f) of
        Inl e \<Rightarrow> Inl e
      | Inr e1 \<Rightarrow>
     (case calculateSimplifiedEfficiency month (next6h f) of
        Inl e \<Rightarrow> Inl e
      | Inr e2 \<Rightarrow>
     (case calculateSimplifiedEfficiency month (next24h f) of
        Inl e \<Rightarrow> Inl e
      | Inr e3 \<Rightarrow>
          (let avgFutureGeneration =
                 (((0 + (solarEff e1 + windEff e1) / 2) + (solarEff e2 + windEff e2) / 2)
                    + (solarEff e3 + windEff e3) / 2) / 3;
               avgFutureLoad = (((0 + loadMult e1) + loadMult e2) + loadMult e3) / 3
           in if avgFutureGeneration < 0.4
              then Inr (min 95 (70 + (1 - avgFutureGeneration) * 25))
              else if avgFutureLoad > 1.3
              then Inr (min 90 (60 + (avgFutureLoad - 1) * 30))
              else Inr (max 40 (min 80 (60 + (avgFutureGeneration - avgFutureLoad) * 20)))))))"

definition calculateOptimalBatteryLevel ::
  "nat \<Rightarrow> WeatherData \<Rightarrow> real \<Rightarrow> real \<Rightarrow> real \<Rightarrow> real" where
  "calculateOptimalBatteryLevel month w sEff wEff lMult =
     (case forecast w of
        None \<Rightarrow> 60
      | Some f \<Rightarrow>
          (case optimalBatteryLevel_try month f of
             Inl e \<Rightarrow> 60
           | Inr v \<Rightarrow> v))"

definition generateActionRecommendation ::
  "real \<Rightarrow> real \<Rightarrow> real \<Rightarrow> WeatherData \<Rightarrow> recommendation" where
  "generateActionRecommendation sEff wEff lMult w =
     (let totalRenewableEff = (sEff + wEff) / 2
      in if totalRenewableEff > 0.7 \<and> lMult < 1.2 then charge_now
         else if totalRenewableEff < 0.3 \<or> lMult > 1.5 then prepare_for_peak
         else if totalRenewableEff < lMult * 0.6 then discharge_now
         else maintain)"

definition predictEnergyEfficiency ::
  "nat \<Rightarrow> WeatherData \<Rightarrow> IoTSensorData option \<Rightarrow> EnergyPrediction" where
  "predictEnergyEfficiency month w iot =
     (let seasonData = rajashtanSeasonalFactors (getCurrentSeason month);
          s1 = 1.0 * ((100 - cloudCover w) / 100);
          tempDerating = max 0.7 (1 - max 0 (temperature w - 25) * 0.004);
          s2 = s1 * tempDerating;
          s3 = s2 * min 1.0 (uvIndex w / 8);
          s4 = s3 * min 1.0 (visibility w / 10);
          s5 = s4 * solarBoost seasonData;
          s6 = (case iot of
                  None \<Rightarrow> s5
                | Some d \<Rightarrow>
                    (let hot = (if panelTemperature d > 60 then s5 * 0.9 else s5)
                     in if ambientLight d < 20000 then hot * 0.8 else hot));
          w1 = (if windSpeed w < 3 then 0.1
                else if windSpeed w > 15 then 0.3
                else min 1.0 ((windSpeed w / 12) ^ 2));
          w2 = w1 * (1 + (25 - temperature w) * 0.005);
          l1 = (if temperature w > 30
                then 1 + ((temperature w - 30) / 10) powr 1.5 * heatLoad seasonData
                else if temperature w < 15
                then 1 + (15 - temperature w) * 0.1 * heatLoad seasonData
                else 1.0);
          l2 = (if humidity w > 70 then l1 * (1 + (humidity w - 70) * 0.005) else l1)
      in \<lparr>solarEfficiency = max 0 (min 1 s6),
          windEfficiency = max 0 (min 1 w2),
          loadMultiplier = max 0.3 (min 2.5 l2),
          batteryOptimalCharge = calculateOptimalBatteryLevel month w s6 w2 l2,
          recommendation = generateActionRecommendation s6 w2 l2 w\<rparr>)"

subsection \<open>Prediction in double arithmetic with overflow\<close>

text \<open>
  The exact reals above cannot overflow, the doubles of the program can. Here a number is
  a finite value, an infinity or \<^verbatim>\<open>NaN\<close>. An operation on finite values gives the exact
  result while its magnitude is below \<open>2^1024 - 2^970\<close>, the least magnitude that
  round-to-nearest takes to an infinity, and the infinity of its sign from there on; on the
  other values it follows IEEE 754. Still left out: the rounding of finite results,
  underflow, and the sign of zero (a zero divisor counts as \<^verbatim>\<open>+0\<close>).
\<close>

datatype number = Val real | PosInfinity | NegInfinity | NaN

definition overflow_threshold :: real where
  "overflow_threshold = 2 ^ 1024 - 2 ^ 970"

definition MAX_VALUE :: real where
  "MAX_VALUE = 2 ^ 1024 - 2 ^ 971"

definition to_number :: "real \<Rightarrow> number" where
  "to_number x =
     (if overflow_threshold \<le> x then PosInfinity
      else if x \<le> - overflow_threshold then NegInfinity
      else Val x)"

text \<open>A finite double: a field of a sample that is neither \<^verbatim>\<open>NaN\<close> nor an infinity.\<close>

definition is_double :: "real \<Rightarrow> bool" where
  "is_double x = (\<bar>x\<bar> \<le> MAX_VALUE)"

fun num_neg :: "number \<Rightarrow> number" where
  "num_neg (Val a) = Val (- a)"
| "num_neg PosInfinity = NegInfinity"
| "num_neg NegInfinity = PosInfinity"
| "num_neg NaN = NaN"

fun num_add :: "number \<Rightarrow> number \<Rightarrow> number" where
  "num_add NaN y = NaN"
| "num_add x NaN = NaN"
| "num_add (Val a) (Val b) = to_number (a + b)"
| "num_add (Val a) y = y"
| "num_add x (Val b) = x"
| "num_add PosInfinity PosInfinity = PosInfinity"
| "num_add NegInfinity NegInfinity = NegInfinity"
| "num_add PosInfinity NegInfinity = NaN"
| "num_add NegInfinity PosInfinity = NaN"

definition num_sub :: "number \<Rightarrow> number \<Rightarrow> number" where
  "num_sub x y = num_add x (num_neg y)"

fun num_mul :: "number \<Rightarrow> number \<Rightarrow> number" where
  "num_mul NaN y = NaN"
| "num_mul x NaN = NaN"
| "num_mul (Val a) (Val b) = to_number (a * b)"
| "num_mul (Val a) y = (if a = 0 then NaN else if 0 < a then y else num_neg y)"
| "num_mul x (Val b) = (if b = 0 then NaN else if 0 < b then x else num_neg x)"
| "num_mul PosInfinity y = y"
| "num_mul NegInfinity y = num_neg y"

fun num_div :: "number \<Rightarrow> number \<Rightarrow> number" where
  "num_div NaN y = NaN"
| "num_div x NaN = NaN"
| "num_div (Val a) (Val b) =
     (if b = 0
      then (if a = 0 then NaN else if 0 < a then PosInfinity else NegInfinity)
      else to_number (a / b))"
| "num_div (Val a) y = Val 0"
| "num_div x (Val b) = (if 0 \<le> b then x else num_neg x)"
| "num_div x y = NaN"

fun Math_min :: "number \<Rightarrow> number \<Rightarrow> number" where
  "Math_min NaN y = NaN"
| "Math_min x NaN = NaN"
| "Math_min (Val a) (Val b) = Val (min a b)"
| "Math_min NegInfinity y = NegInfinity"
| "Math_min x NegInfinity = NegInfinity"
| "Math_min PosInfinity y = y"
| "Math_min x PosInfinity = x"

fun Math_max :: "number \<Rightarrow> number \<Rightarrow> number" where
  "Math_max NaN y = NaN"
| "Math_max x NaN = NaN"
| "Math_max (Val a) (Val b) = Val (max a b)"
| "Math_max PosInfinity y = PosInfinity"
| "Math_max x PosInfinity = PosInfinity"
| "Math_max NegInfinity y = y"
| "Math_max x NegInfinity = x"

text \<open>
  \<^verbatim>\<open>Math.pow\<close> with a finite exponent, case by case as in ECMAScript's
  \<^verbatim>\<open>Number::exponentiate\<close>.
\<close>

definition odd_integer :: "real \<Rightarrow> bool" where
  "odd_integer y = (y = of_int \<lfloor>y\<rfloor> \<and> odd \<lfloor>y\<rfloor>)"

fun Math_pow :: "number \<Rightarrow> real \<Rightarrow> number" where
  "Math_pow NaN y = (if y = 0 then Val 1 else NaN)"
| "Math_pow PosInfinity y =
     (if y = 0 then Val 1 else if 0 < y then PosInfinity else Val 0)"
| "Math_pow NegInfinity y =
     (if y = 0 then Val 1
      else if 0 < y then (if odd_integer y then NegInfinity else PosInfinity)
      else Val 0)"
| "Math_pow (Val a) y =
     (if y = 0 then Val 1
      else if a = 0 then (if 0 < y then Val 0 else PosInfinity)
      else if 0 < a then to_number (a powr y)
      else if y \<noteq> of_int \<lfloor>y\<rfloor> then NaN
      else if odd_integer y then to_number (- (\<bar>a\<bar> powr y))
      else to_number (\<bar>a\<bar> powr y))"

record EnergyPrediction_double =
  solarEfficiency_double :: number
  windEfficiency_double :: number
  loadMultiplier_double :: number

text \<open>
  The three running variables of \<^verbatim>\<open>predictEnergyEfficiency\<close> before the final clamp,
  statement by statement. The fields of the sample are finite doubles; every comparison
  of the function is between such a field and a literal.
\<close>

definition solarEfficiency_unclamped ::
  "nat \<Rightarrow> WeatherData \<Rightarrow> IoTSensorData option \<Rightarrow> number" where
  "solarEfficiency_unclamped month w iot =
     (let seasonData = rajashtanSeasonalFactors (getCurrentSeason month);
          s1 = num_mul (Val 1.0)
                 (num_div (num_sub (Val 100) (Val (cloudCover w))) (Val 100));
          tempDerating =
            Math_max (Val 0.7)
              (num_sub (Val 1)
                 (num_mul (Math_max (Val 0) (num_sub (Val (temperature w)) (Val 25)))
                    (Val 0.004)));
          s2 = num_mul s1 tempDerating;
          s3 = num_mul s2 (Math_min (Val 1.0) (num_div (Val (uvIndex w)) (Val 8)));
          s4 = num_mul s3 (Math_min (Val 1.0) (num_div (Val (visibility w)) (Val 10)));
          s5 = num_mul s4 (Val (solarBoost seasonData))
      in case iot of
           None \<Rightarrow> s5
         | Some d \<Rightarrow>
             (let hot = (if panelTemperature d > 60 then num_mul s5 (Val 0.9) else s5)
              in if ambientLight d < 20000 then num_mul hot (Val 0.8) else hot))"

definition windEfficiency_unclamped :: "WeatherData \<Rightarrow> number" where
  "windEfficiency_unclamped w =
     (let w1 = (if windSpeed w < 3 then Val 0.1
                else if windSpeed w > 15 then Val 0.3
                else Math_min (Val 1.0)
                       (Math_pow (num_div (Val (windSpeed w)) (Val 12)) 2))
      in num_mul w1
           (num_add (Val 1)
              (num_mul (num_sub (Val 25) (Val (temperature w))) (Val 0.005))))"

definition loadMultiplier_unclamped :: "nat \<Rightarrow> WeatherData \<Rightarrow> number" where
  "loadMultiplier_unclamped month w =
     (let seasonData = rajashtanSeasonalFactors (getCurrentSeason month);
          l1 = (if temperature w > 30
                then num_add (Val 1)
                       (num_mul
                          (Math_pow (num_div (num_sub (Val (temperature w)) (Val 30)) (Val 10))
                             1.5)
                          (Val (heatLoad seasonData)))
                else if temperature w < 15
                then num_add (Val 1)
                       (num_mul
                          (num_mul (num_sub (Val 15) (Val (temperature w))) (Val 0.1))
                          (Val (heatLoad seasonData)))
                else Val 1.0)
      in if humidity w > 70
         then num_mul l1
                (num_add (Val 1)
                   (num_mul (num_sub (Val (humidity w)) (Val 70)) (Val 0.005)))
         else l1)"

text \<open>
  The three clamped fields of the object that \<^verbatim>\<open>predictEnergyEfficiency\<close> returns. The
  other two fields, the optimal battery level and the recommendation, do not enter them.
\<close>

definition predictEnergyEfficiency_double ::
  "nat \<Rightarrow> WeatherData \<Rightarrow> IoTSensorData option \<Rightarrow> EnergyPrediction_double" where
  "predictEnergyEfficiency_double month w iot =
     \<lparr>solarEfficiency_double =
        Math_max (Val 0) (Math_min (Val 1) (solarEfficiency_unclamped month w iot)),
      windEfficiency_double =
        Math_max (Val 0) (Math_min (Val 1) (windEfficiency_unclamped w)),
      loadMultiplier_double =
        Math_max (Val 0.3) (Math_min (Val 2.5) (loadMultiplier_unclamped month w))\<rparr>"

text \<open>
  A number \<open>x\<close> of this arithmetic against the exact value \<open>r\<close> of the same expression:
  they are equal, or \<open>x\<close> is an infinity and \<open>r\<close> lies beyond the bound \<open>K\<close> on the same
  side.
\<close>

definition approximates :: "real \<Rightarrow> number \<Rightarrow> real \<Rightarrow> bool" where
  "approximates K x r =
     (case x of
        Val a \<Rightarrow> a = r
      | PosInfinity \<Rightarrow> K \<le> r
      | NegInfinity \<Rightarrow> r \<le> - K
      | NaN \<Rightarrow> False)"

subsection \<open>Battery update\<close>

text \<open>
  \<^verbatim>\<open>calculateBatteryLevel\<close> updates the field and returns the clamped value: the result
  is the pair of the returned number and the simulator after the call. The
  \<^verbatim>\<open>default\<close> label shares the branch of \<^verbatim>\<open>maintain\<close>.
\<close>

definition calculateBatteryLevel ::
  "simulator \<Rightarrow> real \<Rightarrow> real \<Rightarrow> recommendation \<Rightarrow> real \<times> simulator" where
  "calculateBatteryLevel s energyBalance optimalLevel rec =
     (let chargeRate = 2;
          dischargeRate = 1.5;
          lvl = batteryLevel s;
          lvl' =
            (case rec of
               charge_now \<Rightarrow>
                 if energyBalance > 0 \<and> lvl < optimalLevel
                 then lvl + min chargeRate (energyBalance * 0.1) else lvl
             | discharge_now \<Rightarrow>
                 if energyBalance < 0 \<and> lvl > 20
                 then lvl - min dischargeRate (\<bar>energyBalance\<bar> * 0.05) else lvl
             | prepare_for_peak \<Rightarrow>
                 if energyBalance > 10 \<and> lvl < 90
                 then lvl + min (chargeRate * 1.5) (energyBalance * 0.08) else lvl
             | maintain \<Rightarrow>
                 if energyBalance > 20 \<and> lvl < 80
                 then lvl + min 1 (energyBalance * 0.03)
                 else if energyBalance < - 20 \<and> lvl > 30
                 then lvl - min 1 (\<bar>energyBalance\<bar> * 0.02) else lvl)
      in (max 5 (min 100 lvl'), s\<lparr>batteryLevel := lvl'\<rparr>))"

text \<open>
  A finite sequence of battery updates, each with its own balance, optimal level and
  recommendation, applied in order to the same simulator.
\<close>

fun battery_updates :: "simulator \<Rightarrow> (real \<times> real \<times> recommendation) list \<Rightarrow> simulator" where
  "battery_updates s [] = s"
| "battery_updates s ((b, opt, r) # xs) =
     battery_updates (snd (calculateBatteryLevel s b opt r)) xs"

subsection \<open>The tick\<close>

definition getDaytimeFactor :: "real \<Rightarrow> real" where
  "getDaytimeFactor hour = (if hour < 6 \<or> hour > 18 then 0 else sin (((hour - 6) / 12) * pi))"

definition getLoadPattern :: "real \<Rightarrow> real" where
  "getLoadPattern hour =
     (if hour < 5 then 0.4
      else if hour < 8 then 0.6
      else if hour < 12 then 0.8
      else if hour < 16 then 1.2
      else if hour < 20 then 1.0
      else if hour < 23 then 0.7
      else 0.5)"

definition fallbackWeatherData :: WeatherData where
  "fallbackWeatherData =
     \<lparr>condition = sunny, temperature = 30, humidity = 50, windSpeed = 5, cloudCover = 20,
      uvIndex = 6, visibility = 10,
      forecast = Some
        \<lparr>next1h = Some \<lparr>fc_condition = sunny, fc_temperature = 30, fc_windSpeed = 5,
                          fc_cloudCover = 20\<rparr>,
         next6h = Some \<lparr>fc_condition = sunny, fc_temperature = 32, fc_windSpeed = 6,
                          fc_cloudCover = 15\<rparr>,
         next24h = Some \<lparr>fc_condition = partly_cloudy, fc_temperature = 28, fc_windSpeed = 4,
                           fc_cloudCover = 30\<rparr>\<rparr>\<rparr>"

definition fallbackPrediction :: EnergyPrediction where
  "fallbackPrediction =
     \<lparr>solarEfficiency = 0.8, windEfficiency = 0.6, loadMultiplier = 1.0,
      batteryOptimalCharge = 60, recommendation = maintain\<rparr>"

definition fallbackEnergyData :: "string \<Rightarrow> EnergyData" where
  "fallbackEnergyData now =
     \<lparr>timestamp = now, solar_gen_kW = 200, wind_gen_kW = 60, load_demand_kW = 180,
      battery_soc_percent = 65, grid_import_kW = 0, grid_export_kW = 80, weather = sunny,
      forecast_label = Surplus, temperature_C = 30, carbon_saved_kg = 213.2\<rparr>"

text \<open>
  The part of the \<^verbatim>\<open>try\<close> block of \<^verbatim>\<open>generateEnhancedEnergyData\<close> that follows the
  prediction: generation, load, balance, grid exchange, the battery update and the
  record. No statement of it can throw. \<open>now\<close> is \<^verbatim>\<open>now.toISOString()\<close> and \<open>hour\<close> is
  \<^verbatim>\<open>now.getHours()\<close>.
\<close>

definition generateEnhancedEnergyData_record ::
  "simulator \<Rightarrow> WeatherData \<Rightarrow> IoTSensorData option \<Rightarrow> EnergyPrediction \<Rightarrow>
   string \<Rightarrow> real \<Rightarrow> EnhancedEnergyData \<times> simulator" where
  "generateEnhancedEnergyData_record s wd iot p now hour =
     (let maxSolarCapacity = 300;
          maxWindCapacity = 100;
          baseLoad = 200;
          solar = maxSolarCapacity * solarEfficiency p * getDaytimeFactor hour;
          wind = maxWindCapacity * windEfficiency p;
          load = baseLoad * loadMultiplier p * getLoadPattern hour;
          totalGeneration = solar + wind;
          energyBalance = totalGeneration - load;
          grid_import = max 0 (- energyBalance);
          grid_export = max 0 energyBalance;
          upd = calculateBatteryLevel s energyBalance (batteryOptimalCharge p) (recommendation p);
          soc = fst upd;
          ed = \<lparr>timestamp = now,
                solar_gen_kW = Math_round (solar * 100) / 100,
                wind_gen_kW = Math_round (wind * 100) / 100,
                load_demand_kW = Math_round (load * 100) / 100,
                battery_soc_percent = Math_round (soc * 100) / 100,
                grid_import_kW = Math_round (grid_import * 100) / 100,
                grid_export_kW = Math_round (grid_export * 100) / 100,
                weather = condition wd,
                forecast_label =
                  (if energyBalance > 20 then Surplus
                   else if energyBalance < - 20 then Deficit else Balanced),
                temperature_C = temperature wd,
                carbon_saved_kg = Math_round (totalGeneration * 0.82 * 100) / 100\<rparr>
      in (\<lparr>energyData = ed, weatherData = wd, prediction = p, iotData = iot,
           result_mode = mode s\<rparr>, snd upd))"

text \<open>
  The \<^verbatim>\<open>try\<close> block. The outcomes of its two calls are arguments, so that a call that
  throws can be written down: \<open>synth\<close> is what \<^verbatim>\<open>generateRealisticWeatherData(hour)\<close>
  did (an exception, or a value that may be \<^verbatim>\<open>undefined\<close>), \<open>predict\<close> is what
  \<^verbatim>\<open>predictEnergyEfficiency\<close> does, and \<open>rnd\<close> holds the draws that follow the
  synthesis. Both branches of the conditional on \<^verbatim>\<open>this.mode === 'online'\<close> are the same
  call.
\<close>

definition generateEnhancedEnergyData_try ::
  "simulator \<Rightarrow> (error + WeatherData option) \<Rightarrow>
   (WeatherData \<Rightarrow> IoTSensorData option \<Rightarrow> error + EnergyPrediction) \<Rightarrow>
   string \<Rightarrow> real \<Rightarrow> (nat \<Rightarrow> real) \<Rightarrow> error + EnhancedEnergyData \<times> simulator" where
  "generateEnhancedEnergyData_try s synth predict now hour rnd =
     (case synth of
        Inl e \<Rightarrow> Inl e
      | Inr None \<Rightarrow> Inl (Error ''Invalid weather data generated'')
      | Inr (Some wd) \<Rightarrow>
          if forecast wd = None then Inl (Error ''Invalid weather data generated'')
          else
            (let iot = (if mode s = ''offline'' then Some (generateIoTSensorData wd rnd)
                        else None)
             in case predict wd iot of
                  Inl e \<Rightarrow> Inl e
                | Inr p \<Rightarrow> Inr (generateEnhancedEnergyData_record s wd iot p now hour)))"

text \<open>
  The \<^verbatim>\<open>catch\<close> block: the fixed record, with sensor data synthesised from the fallback
  weather in offline mode (\<open>rndc\<close> holds the draws made from there on). The battery
  level is the one before the call: every failure precedes the battery update.
\<close>

definition generateEnhancedEnergyData_catch ::
  "simulator \<Rightarrow> string \<Rightarrow> (nat \<Rightarrow> real) \<Rightarrow> EnhancedEnergyData \<times> simulator" where
  "generateEnhancedEnergyData_catch s now rndc =
     (\<lparr>energyData = fallbackEnergyData now,
       weatherData = fallbackWeatherData,
       prediction = fallbackPrediction,
       iotData = (if mode s = ''offline''
                  then Some (generateIoTSensorData fallbackWeatherData rndc) else None),
       result_mode = mode s\<rparr>, s)"

definition generateEnhancedEnergyData_with ::
  "simulator \<Rightarrow> (error + WeatherData option) \<Rightarrow>
   (WeatherData \<Rightarrow> IoTSensorData option \<Rightarrow> error + EnergyPrediction) \<Rightarrow>
   string \<Rightarrow> real \<Rightarrow> (nat \<Rightarrow> real) \<Rightarrow> (nat \<Rightarrow> real) \<Rightarrow> EnhancedEnergyData \<times> simulator" where
  "generateEnhancedEnergyData_with s synth predict now hour rnd rndc =
     (case generateEnhancedEnergyData_try s synth predict now hour rnd of
        Inr r \<Rightarrow> r
      | Inl e \<Rightarrow> generateEnhancedEnergyData_catch s now rndc)"

text \<open>
  The method itself: the two calls are the functions of this class, which return
  normally on every input.
\<close>

definition generateEnhancedEnergyData ::
  "simulator \<Rightarrow> string \<Rightarrow> nat \<Rightarrow> real \<Rightarrow> (nat \<Rightarrow> real) \<Rightarrow> EnhancedEnergyData \<times> simulator" where
  "generateEnhancedEnergyData s now month hour rnd =
     generateEnhancedEnergyData_with s
       (Inr (Some (generateRealisticWeatherData month hour rnd)))
       (\<lambda>wd iot. Inr (predictEnergyEfficiency month wd iot))
       now hour
       (\<lambda>i. rnd (weatherDraws month + i))
       (\<lambda>i. rnd (weatherDraws month + i))"

section \<open>Properties\<close>

subsection \<open>Shared facts\<close>

lemma Math_round_0: "Math_round 0 = 0"
  by (simp add: Math_round_def)

lemma calculateBatteryLevel_fst:
  "fst (calculateBatteryLevel s b opt r) =
     max 5 (min 100 (batteryLevel (snd (calculateBatteryLevel s b opt r))))"
  by (simp add: calculateBatteryLevel_def Let_def)

lemma calculateBatteryLevel_step:
  assumes "18.5 < batteryLevel s" "batteryLevel s < 97" "opt \<le> 95"
  shows "18.5 < batteryLevel (snd (calculateBatteryLevel s b opt r)) \<and>
         batteryLevel (snd (calculateBatteryLevel s b opt r)) < 97"
  using assms by (cases r) (auto simp add: calculateBatteryLevel_def Let_def)

lemma battery_updates_invariant:
  "18.5 < batteryLevel s \<Longrightarrow> batteryLevel s < 97 \<Longrightarrow>
   list_all (\<lambda>(b, opt, r). opt \<le> 95) xs \<Longrightarrow>
   18.5 < batteryLevel (battery_updates s xs) \<and> batteryLevel (battery_updates s xs) < 97"
proof (induction xs arbitrary: s)
  case Nil
  then show ?case by simp
next
  case (Cons x xs)
  obtain b opt r where x: "x = (b, opt, r)" by (cases x)
  from Cons.prems x have opt: "opt \<le> 95" and rest: "list_all (\<lambda>(b, opt, r). opt \<le> 95) xs"
    by simp_all
  from calculateBatteryLevel_step [OF Cons.prems(1) Cons.prems(2) opt, of b r]
  show ?case using Cons.IH [OF _ _ rest, of "snd (calculateBatteryLevel s b opt r)"] x
    by simp
qed

lemma optimalBatteryLevel_try_range:
  assumes "optimalBatteryLevel_try month f = Inr v"
  shows "40 \<le> v \<and> v \<le> 95"
proof (cases "calculateSimplifiedEfficiency month (next1h f)")
  case (Inl e)
  with assms show ?thesis
    by (simp add: optimalBatteryLevel_try_def)
next
  case e1: (Inr e1)
  show ?thesis
  proof (cases "calculateSimplifiedEfficiency month (next6h f)")
    case (Inl e)
    with assms e1 show ?thesis
      by (simp add: optimalBatteryLevel_try_def)
  next
    case e2: (Inr e2)
    show ?thesis
    proof (cases "calculateSimplifiedEfficiency month (next24h f)")
      case (Inl e)
      with assms e1 e2 show ?thesis
        by (simp add: optimalBatteryLevel_try_def)
    next
      case e3: (Inr e3)
      define g where "g = (((0 + (solarEff e1 + windEff e1) / 2) + (solarEff e2 + windEff e2) / 2)
                    + (solarEff e3 + windEff e3) / 2) / 3"
      define l where "l = (((0 + loadMult e1) + loadMult e2) + loadMult e3) / 3"
      have "optimalBatteryLevel_try month f =
              (if g < 0.4
               then Inr (min 95 (70 + (1 - g) * 25))
               else if l > 1.3
               then Inr (min 90 (60 + (l - 1) * 30))
               else Inr (max 40 (min 80 (60 + (g - l) * 20))))"
        unfolding optimalBatteryLevel_try_def g_def l_def Let_def
        by (simp only: e1 e2 e3 sum.case)
      with assms have "v = (if g < 0.4
               then min 95 (70 + (1 - g) * 25)
               else if l > 1.3
               then min 90 (60 + (l - 1) * 30)
               else max 40 (min 80 (60 + (g - l) * 20)))"
        by (simp split: if_splits)
      then show ?thesis
        by (simp split: if_splits)
    qed
  qed
qed

lemma calculateOptimalBatteryLevel_range:
  "40 \<le> calculateOptimalBatteryLevel month w sEff wEff lMult \<and>
   calculateOptimalBatteryLevel month w sEff wEff lMult \<le> 95"
  unfolding calculateOptimalBatteryLevel_def
  using optimalBatteryLevel_try_range
  by (auto split: option.splits sum.splits)

text \<open>The fields of the prediction, read off the definition.\<close>

lemma solarEfficiency_predict:
  "solarEfficiency (predictEnergyEfficiency month w iot) =
     max 0 (min 1
       (case iot of
          None \<Rightarrow> 1.0 * ((100 - cloudCover w) / 100)
                    * max 0.7 (1 - max 0 (temperature w - 25) * 0.004)
                    * min 1.0 (uvIndex w / 8) * min 1.0 (visibility w / 10)
                    * solarBoost (rajashtanSeasonalFactors (getCurrentSeason month))
        | Some d \<Rightarrow>
            (let hot = (if panelTemperature d > 60
                        then 1.0 * ((100 - cloudCover w) / 100)
                          * max 0.7 (1 - max 0 (temperature w - 25) * 0.004)
                          * min 1.0 (uvIndex w / 8) * min 1.0 (visibility w / 10)
                          * solarBoost (rajashtanSeasonalFactors (getCurrentSeason month)) * 0.9
                        else 1.0 * ((100 - cloudCover w) / 100)
                          * max 0.7 (1 - max 0 (temperature w - 25) * 0.004)
                          * min 1.0 (uvIndex w / 8) * min 1.0 (visibility w / 10)
                          * solarBoost (rajashtanSeasonalFactors (getCurrentSeason month)))
             in if ambientLight d < 20000 then hot * 0.8 else hot)))"
  unfolding predictEnergyEfficiency_def Let_def
  by (simp only: EnergyPrediction.select_convs)

lemma windEfficiency_predict:
  "windEfficiency (predictEnergyEfficiency month w iot) =
     max 0 (min 1
       ((if windSpeed w < 3 then 0.1
         else if windSpeed w > 15 then 0.3
         else min 1.0 ((windSpeed w / 12) ^ 2))
        * (1 + (25 - temperature w) * 0.005)))"
  unfolding predictEnergyEfficiency_def Let_def
  by (simp only: EnergyPrediction.select_convs)

lemma loadMultiplier_predict:
  "loadMultiplier (predictEnergyEfficiency month w iot) =
     max 0.3 (min 2.5
       (if humidity w > 70
        then (if temperature w > 30
              then 1 + ((temperature w - 30) / 10) powr 1.5
                         * heatLoad (rajashtanSeasonalFactors (getCurrentSeason month))
              else if temperature w < 15
              then 1 + (15 - temperature w) * 0.1
                         * heatLoad (rajashtanSeasonalFactors (getCurrentSeason month))
              else 1.0) * (1 + (humidity w - 70) * 0.005)
        else (if temperature w > 30
              then 1 + ((temperature w - 30) / 10) powr 1.5
                         * heatLoad (rajashtanSeasonalFactors (getCurrentSeason month))
              else if temperature w < 15
              then 1 + (15 - temperature w) * 0.1
                         * heatLoad (rajashtanSeasonalFactors (getCurrentSeason month))
              else 1.0)))"
  unfolding predictEnergyEfficiency_def Let_def
  by (simp only: EnergyPrediction.select_convs)

text \<open>
  Double arithmetic: when a result is finite, and how far an overflow is from the exact
  value. On a sample with finite fields and a cloud cover in [0, 100] each clamped field
  is the one that exact arithmetic gives.
\<close>

lemma threshold_gap: "MAX_VALUE + 1000 < overflow_threshold"
  by (simp add: MAX_VALUE_def overflow_threshold_def)

lemma MAX_VALUE_large: "1000 < MAX_VALUE"
  by (simp add: MAX_VALUE_def)


lemma is_double_bounds: "is_double x \<Longrightarrow> - MAX_VALUE \<le> x \<and> x \<le> MAX_VALUE"
  by (auto simp add: is_double_def)

lemma unit_times_bounded:
  fixes a b :: real
  assumes "0 \<le> a" "a \<le> 1" "- M \<le> b" "b \<le> M"
  shows "- M \<le> a * b \<and> a * b \<le> M"
proof -
  have "\<bar>a * b\<bar> = a * \<bar>b\<bar>"
    using assms(1) by (simp add: abs_mult)
  also have "\<dots> \<le> 1 * \<bar>b\<bar>"
    using assms(2) by (intro mult_right_mono) simp_all
  also have "\<dots> \<le> M"
    using assms(3,4) by simp
  finally show ?thesis by (simp add: abs_le_iff)
qed

lemma val_add:
  "- overflow_threshold < a + b \<Longrightarrow> a + b < overflow_threshold \<Longrightarrow>
   num_add (Val a) (Val b) = Val (a + b)"
  by (simp add: to_number_def)

lemma val_sub:
  "- overflow_threshold < a - b \<Longrightarrow> a - b < overflow_threshold \<Longrightarrow>
   num_sub (Val a) (Val b) = Val (a - b)"
  by (simp add: num_sub_def to_number_def)

lemma val_mul:
  "- overflow_threshold < a * b \<Longrightarrow> a * b < overflow_threshold \<Longrightarrow>
   num_mul (Val a) (Val b) = Val (a * b)"
  by (simp add: to_number_def)

lemma val_div:
  "b \<noteq> 0 \<Longrightarrow> - overflow_threshold < a / b \<Longrightarrow> a / b < overflow_threshold \<Longrightarrow>
   num_div (Val a) (Val b) = Val (a / b)"
  by (simp add: to_number_def)


lemma shrink_bounded:
  fixes m k :: real
  assumes "0 \<le> m" "m \<le> M" "0 \<le> k" "k \<le> 1"
  shows "0 \<le> m * k \<and> m * k \<le> M"
proof -
  have "m * k \<le> m * 1"
    using assms(1,4) by (intro mult_left_mono) simp_all
  then show ?thesis
    using assms(1,2,3) by simp
qed

lemma tempDerating_double:
  assumes "is_double t"
  shows "Math_max (Val 0.7)
           (num_sub (Val 1) (num_mul (Math_max (Val 0) (num_sub (Val t) (Val 25))) (Val 0.004)))
         = Val (max 0.7 (1 - max 0 (t - 25) * 0.004))"
proof -
  note g = threshold_gap MAX_VALUE_large
  have tb: "- MAX_VALUE \<le> t" "t \<le> MAX_VALUE"
    using is_double_bounds [OF assms] by simp_all
  define m where "m = max 0 (t - 25)"
  define mk where "mk = m * 0.004"
  have a1: "num_sub (Val t) (Val 25) = Val (t - 25)"
    by (rule val_sub) (use tb g in linarith)+
  have a2: "Math_max (Val 0) (Val (t - 25)) = Val m"
    by (simp add: m_def)
  have mb: "0 \<le> m" "m \<le> MAX_VALUE"
    using tb g by (simp_all add: m_def)
  have mkb: "0 \<le> mk \<and> mk \<le> MAX_VALUE"
    unfolding mk_def by (rule shrink_bounded) (use mb in simp_all)
  have mkb': "0 \<le> m * 0.004 \<and> m * 0.004 \<le> MAX_VALUE"
    using mkb by (simp only: mk_def)
  have "num_mul (Val m) (Val 0.004) = Val (m * 0.004)"
    by (rule val_mul) (use mkb' g in linarith)+
  then have a3: "num_mul (Val m) (Val 0.004) = Val mk"
    by (simp only: mk_def)
  have a4: "num_sub (Val 1) (Val mk) = Val (1 - mk)"
    by (rule val_sub) (use mkb g in linarith)+
  have a5: "Math_max (Val 0.7) (Val (1 - mk)) = Val (max 0.7 (1 - mk))"
    by simp
  show ?thesis
    by (simp only: a1 a2 a3 a4 a5) (simp only: mk_def m_def)
qed

lemma capped_ratio_double:
  assumes "is_double x" and "1 \<le> c"
  shows "Math_min (Val 1.0) (num_div (Val x) (Val c)) = Val (min 1 (x / c)) \<and>
         - MAX_VALUE \<le> min 1 (x / c) \<and> min 1 (x / c) \<le> MAX_VALUE"
proof -
  note g = threshold_gap MAX_VALUE_large
  have xb: "- MAX_VALUE \<le> x" "x \<le> MAX_VALUE"
    using is_double_bounds [OF assms(1)] by simp_all
  have c: "0 < c" using assms(2) by simp
  define y where "y = x / c"
  have lo: "- MAX_VALUE \<le> y"
  proof -
    have "- MAX_VALUE * c \<le> - MAX_VALUE * 1"
      using assms(2) g by (intro mult_left_mono_neg) simp_all
    then have "- MAX_VALUE * c \<le> x" using xb by simp
    then show ?thesis using c by (simp add: y_def pos_le_divide_eq)
  qed
  have hi: "y \<le> MAX_VALUE"
  proof -
    have "MAX_VALUE * 1 \<le> MAX_VALUE * c"
      using assms(2) g by (intro mult_left_mono) simp_all
    then have "x \<le> MAX_VALUE * c" using xb by simp
    then show ?thesis using c by (simp add: y_def pos_divide_le_eq)
  qed
  have "num_div (Val x) (Val c) = Val (x / c)"
    by (rule val_div) (use lo hi c g in \<open>simp_all add: y_def [symmetric]\<close>)
  then have d: "num_div (Val x) (Val c) = Val y"
    by (simp only: y_def)
  have m: "Math_min (Val 1.0) (Val y) = Val (min 1 y)"
    by simp
  have "Math_min (Val 1.0) (num_div (Val x) (Val c)) = Val (min 1 y) \<and>
         - MAX_VALUE \<le> min 1 y \<and> min 1 y \<le> MAX_VALUE"
    unfolding d m using lo hi g by simp
  then show ?thesis
    by (simp only: y_def)
qed

lemma threshold_large: "2000 < overflow_threshold"
  using threshold_gap MAX_VALUE_large by linarith

lemma approximates_to_number: "approximates overflow_threshold (to_number r) r"
  by (simp add: approximates_def to_number_def)

lemma approximates_Val: "approximates K (Val r) r"
  by (simp add: approximates_def)

lemma approximates_weaken: "approximates K x r \<Longrightarrow> K' \<le> K \<Longrightarrow> approximates K' x r"
  by (cases x) (simp_all add: approximates_def)

lemma approximates_mul_const:
  assumes "approximates K x r" and c: "0 < c"
    and K': "K' \<le> K * c" "K' \<le> overflow_threshold"
  shows "approximates K' (num_mul x (Val c)) (r * c)"
proof (cases x)
  case (Val a)
  with assms(1) have "a = r" by (simp add: approximates_def)
  then have "num_mul x (Val c) = to_number (r * c)"
    using Val by simp
  then show ?thesis
    using approximates_weaken [OF approximates_to_number K'(2)] by simp
next
  case PosInfinity
  with assms(1) have "K \<le> r" by (simp add: approximates_def)
  then have "K * c \<le> r * c"
    using c by (intro mult_right_mono) simp_all
  then have "K' \<le> r * c"
    using K'(1) by linarith
  then show ?thesis
    using PosInfinity c by (simp add: approximates_def)
next
  case NegInfinity
  with assms(1) have "r \<le> - K" by (simp add: approximates_def)
  then have "r * c \<le> (- K) * c"
    using c by (intro mult_right_mono) simp_all
  then have "r * c \<le> - (K * c)"
    by (simp only: mult_minus_left)
  then have "r * c \<le> - K'"
    using K'(1) by linarith
  then show ?thesis
    using NegInfinity c by (simp add: approximates_def)
next
  case NaN
  with assms(1) show ?thesis by (simp add: approximates_def)
qed

lemma approximates_add_one:
  assumes "approximates K x r" and K': "K' \<le> K - 1" "K' \<le> overflow_threshold"
  shows "approximates K' (num_add (Val 1) x) (1 + r)"
proof (cases x)
  case (Val a)
  with assms(1) have "a = r" by (simp add: approximates_def)
  then have "num_add (Val 1) x = to_number (1 + r)"
    using Val by simp
  then show ?thesis
    using approximates_weaken [OF approximates_to_number K'(2)] by simp
next
  case PosInfinity
  with assms(1) K'(1) show ?thesis by (simp add: approximates_def)
next
  case NegInfinity
  with assms(1) K'(1) show ?thesis by (simp add: approximates_def)
next
  case NaN
  with assms(1) show ?thesis by (simp add: approximates_def)
qed

lemma approximates_clamp:
  assumes "approximates K x r" and "lo \<le> hi" "hi \<le> K" "- K \<le> lo"
  shows "Math_max (Val lo) (Math_min (Val hi) x) = Val (max lo (min hi r))"
  using assms by (cases x) (auto simp add: approximates_def)

lemma approximates_cap:
  assumes "approximates K x r" and "hi \<le> K" "- K < r"
  shows "Math_min (Val hi) x = Val (min hi r)"
  using assms by (cases x) (auto simp add: approximates_def)

lemma solarBoost_bounds: "1 / 2 \<le> solarBoost (rajashtanSeasonalFactors sn)"
  by (cases sn) (simp_all add: rajashtanSeasonalFactors_def)

lemma solarEfficiency_double_exact:
  assumes cc: "0 \<le> cloudCover w" "cloudCover w \<le> 100"
    and t: "is_double (temperature w)"
    and uv: "is_double (uvIndex w)"
    and vis: "is_double (visibility w)"
  shows "solarEfficiency_double (predictEnergyEfficiency_double month w iot) =
         Val (solarEfficiency (predictEnergyEfficiency month w iot))"
proof -
  note g = threshold_gap MAX_VALUE_large
  define q where "q = (100 - cloudCover w) / 100"
  define d where "d = max 0.7 (1 - max 0 (temperature w - 25) * 0.004)"
  define u where "u = min 1 (uvIndex w / 8)"
  define v where "v = min 1 (visibility w / 10)"
  define boost where "boost = solarBoost (rajashtanSeasonalFactors (getCurrentSeason month))"
  have qb: "0 \<le> q" "q \<le> 1"
    using cc by (simp_all add: q_def)
  have db: "0 \<le> d" "d \<le> 1"
    by (simp_all add: d_def)
  have q1: "num_sub (Val 100) (Val (cloudCover w)) = Val (100 - cloudCover w)"
    by (rule val_sub) (use cc g in linarith)+
  have "num_div (Val (100 - cloudCover w)) (Val 100) = Val ((100 - cloudCover w) / 100)"
    by (rule val_div) (use qb g in \<open>simp_all add: q_def [symmetric]\<close>)
  then have q2: "num_div (Val (100 - cloudCover w)) (Val 100) = Val q"
    by (simp only: q_def)
  have q3: "num_mul (Val 1.0) (Val q) = Val q"
    using val_mul [of "1.0" q] qb g by simp
  have td: "Math_max (Val 0.7)
           (num_sub (Val 1)
              (num_mul (Math_max (Val 0) (num_sub (Val (temperature w)) (Val 25))) (Val 0.004)))
         = Val d"
    unfolding d_def by (rule tempDerating_double [OF t])
  have qd0: "0 \<le> q * d"
    by (rule mult_nonneg_nonneg) (rule qb db)+
  have qd1: "q * d \<le> 1"
    by (rule mult_le_one) (rule qb db)+
  have s2: "num_mul (Val q) (Val d) = Val (q * d)"
    by (rule val_mul) (use qd0 qd1 g in linarith)+
  have ud: "Math_min (Val 1.0) (num_div (Val (uvIndex w)) (Val 8)) = Val u"
    and ub: "- MAX_VALUE \<le> u" "u \<le> MAX_VALUE"
    using capped_ratio_double [OF uv, of 8] by (simp_all add: u_def)
  have vd: "Math_min (Val 1.0) (num_div (Val (visibility w)) (Val 10)) = Val v"
    using capped_ratio_double [OF vis, of 10] by (simp_all add: v_def)
  have s3b: "- MAX_VALUE \<le> q * d * u \<and> q * d * u \<le> MAX_VALUE"
    by (rule unit_times_bounded) (rule qd0 qd1 ub)+
  have s3: "num_mul (Val (q * d)) (Val u) = Val (q * d * u)"
    by (rule val_mul) (use s3b g in linarith)+
  have form: "solarEfficiency_unclamped month w iot =
      (case iot of
         None \<Rightarrow> num_mul (num_mul (Val (q * d * u)) (Val v)) (Val boost)
       | Some sd \<Rightarrow>
           (let hot = (if panelTemperature sd > 60
                       then num_mul (num_mul (num_mul (Val (q * d * u)) (Val v)) (Val boost))
                              (Val 0.9)
                       else num_mul (num_mul (Val (q * d * u)) (Val v)) (Val boost))
            in if ambientLight sd < 20000 then num_mul hot (Val 0.8) else hot))"
    unfolding solarEfficiency_unclamped_def Let_def boost_def [symmetric]
    by (simp only: q1 q2 q3 td s2 ud vd s3)
  note tl = threshold_large
  define r5 where "r5 = q * d * u * v * boost"
  define X5 where "X5 = num_mul (num_mul (Val (q * d * u)) (Val v)) (Val boost)"
  have x4: "approximates overflow_threshold (num_mul (Val (q * d * u)) (Val v)) (q * d * u * v)"
    by (simp add: approximates_to_number)
  have bb: "1 / 2 \<le> boost"
    unfolding boost_def by (rule solarBoost_bounds)
  have "overflow_threshold * (1 / 2) \<le> overflow_threshold * boost"
    using bb tl by (intro mult_left_mono) simp_all
  then have k5: "overflow_threshold / 2 \<le> overflow_threshold * boost"
    by simp
  have x5: "approximates (overflow_threshold / 2) X5 r5"
    unfolding X5_def r5_def
    by (rule approximates_mul_const [OF x4]) (use bb k5 tl in simp_all)
  have x5': "approximates (overflow_threshold / 4) X5 r5"
    by (rule approximates_weaken [OF x5]) (use tl in simp)
  have x6: "approximates (overflow_threshold / 4) (num_mul X5 (Val 0.9)) (r5 * 0.9)"
    by (rule approximates_mul_const [OF x5]) (use tl in simp_all)
  have hot8: "approximates (overflow_threshold / 8) (num_mul y (Val 0.8)) (s * 0.8)"
    if "approximates (overflow_threshold / 4) y s" for y s
    by (rule approximates_mul_const [OF that]) (use tl in simp_all)
  have weak8: "approximates (overflow_threshold / 8) y s"
    if "approximates (overflow_threshold / 4) y s" for y s
    by (rule approximates_weaken [OF that]) (use tl in simp)
  have formX: "solarEfficiency_unclamped month w iot =
      (case iot of
         None \<Rightarrow> X5
       | Some sd \<Rightarrow>
           (let hot = (if panelTemperature sd > 60 then num_mul X5 (Val 0.9) else X5)
            in if ambientLight sd < 20000 then num_mul hot (Val 0.8) else hot))"
    unfolding X5_def by (rule form)
  have E: "1.0 * ((100 - cloudCover w) / 100)
             * max 0.7 (1 - max 0 (temperature w - 25) * 0.004)
             * min 1.0 (uvIndex w / 8) * min 1.0 (visibility w / 10)
             * solarBoost (rajashtanSeasonalFactors (getCurrentSeason month)) = r5"
    by (simp add: r5_def q_def d_def u_def v_def boost_def)
  have real: "solarEfficiency (predictEnergyEfficiency month w iot) =
      max 0 (min 1
        (case iot of
           None \<Rightarrow> r5
         | Some sd \<Rightarrow>
             (let hot = (if panelTemperature sd > 60 then r5 * 0.9 else r5)
              in if ambientLight sd < 20000 then hot * 0.8 else hot)))"
    unfolding solarEfficiency_predict E by (rule refl)
  have ap: "approximates (overflow_threshold / 8) (solarEfficiency_unclamped month w iot)
        (case iot of
           None \<Rightarrow> r5
         | Some sd \<Rightarrow>
             (let hot = (if panelTemperature sd > 60 then r5 * 0.9 else r5)
              in if ambientLight sd < 20000 then hot * 0.8 else hot))"
  proof (cases iot)
    case None
    then show ?thesis
      unfolding formX using weak8 [OF x5'] by simp
  next
    case (Some sd)
    then show ?thesis
      unfolding formX
      using weak8 [OF x5'] weak8 [OF x6] hot8 [OF x5'] hot8 [OF x6]
      by (simp add: Let_def del: num_mul.simps)
  qed
  have "Math_max (Val 0) (Math_min (Val 1) (solarEfficiency_unclamped month w iot)) =
        Val (solarEfficiency (predictEnergyEfficiency month w iot))"
    unfolding real
    by (rule approximates_clamp [OF ap]) (use tl in simp_all)
  then show ?thesis
    unfolding predictEnergyEfficiency_double_def EnergyPrediction_double.select_convs .
qed

lemma affine_factor_double:
  assumes "- MAX_VALUE - 100 \<le> a - b" "a - b \<le> MAX_VALUE + 100"
  shows "num_add (Val 1) (num_mul (num_sub (Val a) (Val b)) (Val 0.005)) =
         Val (1 + (a - b) * 0.005)"
proof -
  note g = threshold_gap MAX_VALUE_large
  define r where "r = a - b"
  define rk where "rk = 0.005 * r"
  have rb: "- (MAX_VALUE + 100) \<le> r" "r \<le> MAX_VALUE + 100"
    using assms by (simp_all add: r_def)
  have k: "(0::real) \<le> 0.005" "(0.005::real) \<le> 1"
    by simp_all
  have rkb: "- (MAX_VALUE + 100) \<le> rk \<and> rk \<le> MAX_VALUE + 100"
    unfolding rk_def by (rule unit_times_bounded) (rule k rb)+
  have rk': "r * 0.005 = rk"
    by (simp add: rk_def)
  have b1: "num_sub (Val a) (Val b) = Val r"
    unfolding r_def by (rule val_sub) (use assms g in linarith)+
  have "num_mul (Val r) (Val 0.005) = Val (r * 0.005)"
    by (rule val_mul) (unfold rk', (use rkb g in linarith)+)
  then have b2: "num_mul (Val r) (Val 0.005) = Val rk"
    by (simp only: rk')
  have b3: "num_add (Val 1) (Val rk) = Val (1 + rk)"
    by (rule val_add) (use rkb g in linarith)+
  show ?thesis
    by (simp only: b1 b2 b3) (simp only: rk' [symmetric] r_def)
qed

lemma wind_base_double:
  "(if ws < 3 then Val 0.1
    else if ws > 15 then Val 0.3
    else Math_min (Val 1.0) (Math_pow (num_div (Val ws) (Val 12)) 2)) =
   Val (if ws < 3 then 0.1 else if ws > 15 then 0.3 else min 1.0 ((ws / 12) ^ 2))"
proof (cases "ws < 3 \<or> ws > 15")
  case True
  then show ?thesis by auto
next
  case False
  note g = threshold_gap MAX_VALUE_large
  note tl = threshold_large
  from False have ws: "3 \<le> ws" "ws \<le> 15" by simp_all
  have d: "num_div (Val ws) (Val 12) = Val (ws / 12)"
    by (rule val_div) (use ws g in simp_all)
  have p: "0 < ws / 12" using ws by simp
  have pw: "Math_pow (Val (ws / 12)) 2 = to_number ((ws / 12) ^ 2)"
    using p by simp
  have sq: "- overflow_threshold < (ws / 12) ^ 2"
    using tl by (simp add: less_le_trans [OF _ zero_le_power2])
  have "Math_min (Val 1.0) (to_number ((ws / 12) ^ 2)) = Val (min 1.0 ((ws / 12) ^ 2))"
    by (rule approximates_cap [OF approximates_to_number]) (use tl sq in simp_all)
  then show ?thesis
    using False by (simp add: d pw del: Math_pow.simps num_div.simps)
qed

lemma windEfficiency_double_exact:
  assumes t: "is_double (temperature w)"
  shows "windEfficiency_double (predictEnergyEfficiency_double month w iot) =
         Val (windEfficiency (predictEnergyEfficiency month w iot))"
proof -
  note tl = threshold_large
  have tb: "- MAX_VALUE \<le> temperature w" "temperature w \<le> MAX_VALUE"
    using is_double_bounds [OF t] by simp_all
  have f: "num_add (Val 1) (num_mul (num_sub (Val 25) (Val (temperature w))) (Val 0.005)) =
           Val (1 + (25 - temperature w) * 0.005)"
    by (rule affine_factor_double) (use tb in linarith)+
  define b where "b = (if windSpeed w < 3 then 0.1
                       else if windSpeed w > 15 then 0.3
                       else min 1.0 ((windSpeed w / 12) ^ 2))"
  define f' where "f' = 1 + (25 - temperature w) * 0.005"
  have form: "windEfficiency_unclamped w = num_mul (Val b) (Val f')"
    unfolding windEfficiency_unclamped_def Let_def b_def f'_def
    by (simp only: f wind_base_double)
  have ap: "approximates overflow_threshold (windEfficiency_unclamped w) (b * f')"
    unfolding form by (simp add: approximates_to_number)
  have real: "windEfficiency (predictEnergyEfficiency month w iot) = max 0 (min 1 (b * f'))"
    unfolding windEfficiency_predict b_def f'_def by (rule refl)
  have "Math_max (Val 0) (Math_min (Val 1) (windEfficiency_unclamped w)) =
        Val (windEfficiency (predictEnergyEfficiency month w iot))"
    unfolding real
    by (rule approximates_clamp [OF ap]) (use tl in simp_all)
  then show ?thesis
    unfolding predictEnergyEfficiency_double_def EnergyPrediction_double.select_convs .
qed

lemma load_base_approximates:
  assumes hl: "1 / 4 \<le> hl" and t: "is_double t"
  shows "approximates (overflow_threshold / 8)
           (if t > 30
            then num_add (Val 1)
                   (num_mul (Math_pow (num_div (num_sub (Val t) (Val 30)) (Val 10)) 1.5)
                      (Val hl))
            else if t < 15
            then num_add (Val 1)
                   (num_mul (num_mul (num_sub (Val 15) (Val t)) (Val 0.1)) (Val hl))
            else Val 1.0)
           (if t > 30
            then 1 + ((t - 30) / 10) powr 1.5 * hl
            else if t < 15
            then 1 + (15 - t) * 0.1 * hl
            else 1.0)"
proof -
  note g = threshold_gap MAX_VALUE_large
  note tl = threshold_large
  have tb: "- MAX_VALUE \<le> t" "t \<le> MAX_VALUE"
    using is_double_bounds [OF t] by simp_all
  have hl0: "0 < hl" using hl by simp
  have "overflow_threshold * (1 / 4) \<le> overflow_threshold * hl"
    using hl tl by (intro mult_left_mono) simp_all
  then have k: "overflow_threshold / 4 \<le> overflow_threshold * hl"
    by simp
  have step: "approximates (overflow_threshold / 8)
                (num_add (Val 1) (num_mul (to_number z) (Val hl))) (1 + z * hl)" for z
  proof -
    have "approximates (overflow_threshold / 4) (num_mul (to_number z) (Val hl)) (z * hl)"
      by (rule approximates_mul_const [OF approximates_to_number]) (use hl0 k tl in simp_all)
    then show ?thesis
      by (rule approximates_add_one) (use tl in simp_all)
  qed
  consider (hot) "t > 30" | (cold) "\<not> t > 30" "t < 15" | (mild) "\<not> t > 30" "\<not> t < 15"
    by blast
  then show ?thesis
  proof cases
    case hot
    have s: "num_sub (Val t) (Val 30) = Val (t - 30)"
      by (rule val_sub) (use tb g in linarith)+
    have d: "num_div (Val (t - 30)) (Val 10) = Val ((t - 30) / 10)"
      by (rule val_div) (use tb hot g in simp_all)
    have p: "Math_pow (Val ((t - 30) / 10)) 1.5 = to_number (((t - 30) / 10) powr 1.5)"
      using hot by simp
    show ?thesis
      using hot step [of "((t - 30) / 10) powr 1.5"]
      by (simp only: s d p if_True)
  next
    case cold
    have s: "num_sub (Val 15) (Val t) = Val (15 - t)"
      by (rule val_sub) (use tb g in linarith)+
    have m: "num_mul (Val (15 - t)) (Val 0.1) = to_number ((15 - t) * 0.1)"
      by simp
    show ?thesis
      using cold step [of "(15 - t) * 0.1"]
      by (simp only: s m if_True if_False)
  next
    case mild
    then show ?thesis
      by (simp add: approximates_Val)
  qed
qed

lemma loadMultiplier_double_exact:
  assumes t: "is_double (temperature w)" and h: "is_double (humidity w)"
  shows "loadMultiplier_double (predictEnergyEfficiency_double month w iot) =
         Val (loadMultiplier (predictEnergyEfficiency month w iot))"
proof -
  note tl = threshold_large
  have hb: "- MAX_VALUE \<le> humidity w" "humidity w \<le> MAX_VALUE"
    using is_double_bounds [OF h] by simp_all
  define hl where "hl = heatLoad (rajashtanSeasonalFactors (getCurrentSeason month))"
  have hl: "1 / 4 \<le> hl"
    unfolding hl_def by (cases "getCurrentSeason month") (simp_all add: rajashtanSeasonalFactors_def)
  define L where "L = (if temperature w > 30
            then num_add (Val 1)
                   (num_mul
                      (Math_pow (num_div (num_sub (Val (temperature w)) (Val 30)) (Val 10)) 1.5)
                      (Val hl))
            else if temperature w < 15
            then num_add (Val 1)
                   (num_mul (num_mul (num_sub (Val 15) (Val (temperature w))) (Val 0.1)) (Val hl))
            else Val 1.0)"
  define r where "r = (if temperature w > 30
            then 1 + ((temperature w - 30) / 10) powr 1.5 * hl
            else if temperature w < 15
            then 1 + (15 - temperature w) * 0.1 * hl
            else 1.0)"
  define f where "f = 1 + (humidity w - 70) * 0.005"
  have l1: "approximates (overflow_threshold / 8) L r"
    unfolding L_def r_def by (rule load_base_approximates [OF hl t])
  have fd: "num_add (Val 1) (num_mul (num_sub (Val (humidity w)) (Val 70)) (Val 0.005)) = Val f"
    unfolding f_def by (rule affine_factor_double) (use hb in linarith)+
  have form: "loadMultiplier_unclamped month w =
                (if humidity w > 70 then num_mul L (Val f) else L)"
    unfolding loadMultiplier_unclamped_def Let_def L_def hl_def
    by (simp only: fd)
  have real: "loadMultiplier (predictEnergyEfficiency month w iot) =
                max 0.3 (min 2.5 (if humidity w > 70 then r * f else r))"
    unfolding loadMultiplier_predict r_def f_def hl_def by (rule refl)
  have ap: "approximates (overflow_threshold / 8) (loadMultiplier_unclamped month w)
              (if humidity w > 70 then r * f else r)"
  proof (cases "humidity w > 70")
    case True
    then have f1: "1 \<le> f"
      by (simp add: f_def)
    have "overflow_threshold / 8 * 1 \<le> overflow_threshold / 8 * f"
      using f1 tl by (intro mult_left_mono) simp_all
    then have k: "overflow_threshold / 8 \<le> overflow_threshold / 8 * f"
      by simp
    have "approximates (overflow_threshold / 8) (num_mul L (Val f)) (r * f)"
      by (rule approximates_mul_const [OF l1]) (use f1 k tl in simp_all)
    then show ?thesis
      unfolding form using True by (simp only: if_True)
  next
    case False
    then show ?thesis
      unfolding form using l1 by (simp only: if_False)
  qed
  have "Math_max (Val 0.3) (Math_min (Val 2.5) (loadMultiplier_unclamped month w)) =
        Val (loadMultiplier (predictEnergyEfficiency month w iot))"
    unfolding real
    by (rule approximates_clamp [OF ap]) (use tl in simp_all)
  then show ?thesis
    unfolding predictEnergyEfficiency_double_def EnergyPrediction_double.select_convs .
qed

text \<open>The fields of the synthesised weather.\<close>

lemma temperature_generate:
  "temperature (generateRealisticWeatherData month hour rnd) =
     Math_round ((getSeasonalBaseTemperature (getCurrentSeason month)
                  + sin ((hour - 6) / 12 * pi) * getTemperatureRange (getCurrentSeason month)
                  + (rnd 0 - 0.5) * 3) * 10) / 10"
  unfolding generateRealisticWeatherData_def Let_def
  by (simp only: WeatherData.select_convs)

lemma forecast_generate:
  "forecast (generateRealisticWeatherData month hour rnd) \<noteq> None"
  unfolding generateRealisticWeatherData_def Let_def
  by (simp only: WeatherData.select_convs option.distinct not_False_eq_True)

lemma getTemperatureRange_pos: "0 < getTemperatureRange sn"
  by (cases sn) simp_all

lemma sin_hour_12: "sin ((12 - 6) / 12 * pi) = (1::real)"
  by simp

lemma sin_hour_18: "sin ((18 - 6) / 12 * pi) = (0::real)"
  by simp

lemma sin_hour_17: "sin ((17 - 6) / 12 * pi) < (1::real)"
proof -
  have "sin ((17 - 6) / 12 * pi) = sin (pi - pi / 12)"
    by (simp add: field_simps)
  also have "\<dots> = sin (pi / 12)"
    by (rule sin_pi_minus)
  also have "\<dots> < sin (pi / 2)"
    by (rule sin_monotone_2pi) (use pi_gt_zero in simp_all)
  finally show ?thesis by simp
qed

lemma sin_hour_19: "sin ((19 - 6) / 12 * pi) < (0::real)"
  by (rule sin_lt_zero) (use pi_gt_zero in simp_all)

text \<open>The record of a tick that did not fail.\<close>

lemma record_grid_import:
  "grid_import_kW (energyData (fst (generateEnhancedEnergyData_record s wd iot p now hour))) =
     Math_round (max 0 (- (300 * solarEfficiency p * getDaytimeFactor hour
                            + 100 * windEfficiency p
                            - 200 * loadMultiplier p * getLoadPattern hour)) * 100) / 100"
  unfolding generateEnhancedEnergyData_record_def Let_def
  by (simp only: fst_conv EnhancedEnergyData.select_convs EnergyData.select_convs)

lemma record_grid_export:
  "grid_export_kW (energyData (fst (generateEnhancedEnergyData_record s wd iot p now hour))) =
     Math_round (max 0 (300 * solarEfficiency p * getDaytimeFactor hour
                         + 100 * windEfficiency p
                         - 200 * loadMultiplier p * getLoadPattern hour) * 100) / 100"
  unfolding generateEnhancedEnergyData_record_def Let_def
  by (simp only: fst_conv EnhancedEnergyData.select_convs EnergyData.select_convs)

lemma record_prediction:
  "prediction (fst (generateEnhancedEnergyData_record s wd iot p now hour)) = p"
  unfolding generateEnhancedEnergyData_record_def Let_def
  by (simp only: fst_conv EnhancedEnergyData.select_convs)

lemma record_state:
  "snd (generateEnhancedEnergyData_record s wd iot p now hour) =
     snd (calculateBatteryLevel s
            (300 * solarEfficiency p * getDaytimeFactor hour
               + 100 * windEfficiency p
               - 200 * loadMultiplier p * getLoadPattern hour)
            (batteryOptimalCharge p) (recommendation p))"
  unfolding generateEnhancedEnergyData_record_def Let_def
  by (simp only: snd_conv)

lemma grid_exclusive:
  fixes bal :: real
  shows "Math_round (max 0 (- bal) * 100) / 100 = 0 \<or> Math_round (max 0 bal * 100) / 100 = 0"
proof (cases "0 \<le> bal")
  case True
  then have "max 0 (- bal) = 0" by simp
  then show ?thesis by (simp add: Math_round_0)
next
  case False
  then have "max 0 bal = 0" by simp
  then show ?thesis by (simp add: Math_round_0)
qed

lemma try_Inr_is_record:
  "generateEnhancedEnergyData_try s synth predict now hour rnd = Inr x \<Longrightarrow>
   \<exists>wd iot p. x = generateEnhancedEnergyData_record s wd iot p now hour"
  unfolding generateEnhancedEnergyData_try_def Let_def
  by (auto split: sum.splits option.splits if_splits)

lemma tick_is_record:
  "generateEnhancedEnergyData s now month hour rnd =
     generateEnhancedEnergyData_record s
       (generateRealisticWeatherData month hour rnd)
       (if mode s = ''offline''
        then Some (generateIoTSensorData (generateRealisticWeatherData month hour rnd)
                     (\<lambda>i. rnd (weatherDraws month + i)))
        else None)
       (predictEnergyEfficiency month (generateRealisticWeatherData month hour rnd)
          (if mode s = ''offline''
           then Some (generateIoTSensorData (generateRealisticWeatherData month hour rnd)
                        (\<lambda>i. rnd (weatherDraws month + i)))
           else None))
       now hour"
  unfolding generateEnhancedEnergyData_def generateEnhancedEnergyData_with_def
    generateEnhancedEnergyData_try_def
  using forecast_generate [of month hour rnd]
  by (cases "forecast (generateRealisticWeatherData month hour rnd)") (simp_all add: Let_def)

lemma tick_state:
  "snd (generateEnhancedEnergyData_with s synth predict now hour rnd rndc) = s \<or>
   (\<exists>b opt r. snd (generateEnhancedEnergyData_with s synth predict now hour rnd rndc) =
                snd (calculateBatteryLevel s b opt r))"
proof (cases "generateEnhancedEnergyData_try s synth predict now hour rnd")
  case (Inl err)
  then show ?thesis
    by (simp add: generateEnhancedEnergyData_with_def generateEnhancedEnergyData_catch_def)
next
  case (Inr y)
  then obtain wd iot p where y: "y = generateEnhancedEnergyData_record s wd iot p now hour"
    using try_Inr_is_record by blast
  have w: "generateEnhancedEnergyData_with s synth predict now hour rnd rndc = y"
    using Inr by (simp add: generateEnhancedEnergyData_with_def)
  show ?thesis
    unfolding w y record_state by blast
qed

subsection \<open>Battery update\<close>

text \<open>
  Claim C1. The battery update follows the four-case table: under \<open>charge_now\<close> with a
  positive balance and a level below the optimal one the stored level grows by
  \<open>min 2 (balance \<cdot> 0.1)\<close>; under \<open>discharge_now\<close> with a negative balance and a level
  above 20 it falls by \<open>min 1.5 (|balance| \<cdot> 0.05)\<close>; under \<open>prepare_for_peak\<close> with a
  balance above 10 and a level below 90 it grows by \<open>min 3 (balance \<cdot> 0.08)\<close>; under
  \<open>maintain\<close> it grows by \<open>min 1 (balance \<cdot> 0.03)\<close> when the balance exceeds 20 and the
  level is below 80, and falls by \<open>min 1 (|balance| \<cdot> 0.02)\<close> when the balance is below
  \<open>-20\<close> and the level above 30; in every other case the level is unchanged. The call
  returns the stored level clamped to [5, 100] and changes no other field. From level 60
  with balance 50, optimal level 80 and \<open>charge_now\<close> the result is 62; from level 25 with
  balance \<open>-40\<close> and \<open>discharge_now\<close> it is 23.5.
\<close>

theorem calculateBatteryLevel_table:
  "(r = charge_now \<and> b > 0 \<and> batteryLevel s < opt \<longrightarrow>
      batteryLevel (snd (calculateBatteryLevel s b opt r)) = batteryLevel s + min 2 (b * 0.1)) \<and>
   (r = discharge_now \<and> b < 0 \<and> batteryLevel s > 20 \<longrightarrow>
      batteryLevel (snd (calculateBatteryLevel s b opt r)) =
        batteryLevel s - min 1.5 (\<bar>b\<bar> * 0.05)) \<and>
   (r = prepare_for_peak \<and> b > 10 \<and> batteryLevel s < 90 \<longrightarrow>
      batteryLevel (snd (calculateBatteryLevel s b opt r)) = batteryLevel s + min 3 (b * 0.08)) \<and>
   (r = maintain \<and> b > 20 \<and> batteryLevel s < 80 \<longrightarrow>
      batteryLevel (snd (calculateBatteryLevel s b opt r)) = batteryLevel s + min 1 (b * 0.03)) \<and>
   (r = maintain \<and> b < - 20 \<and> batteryLevel s > 30 \<longrightarrow>
      batteryLevel (snd (calculateBatteryLevel s b opt r)) =
        batteryLevel s - min 1 (\<bar>b\<bar> * 0.02)) \<and>
   (\<not> (r = charge_now \<and> b > 0 \<and> batteryLevel s < opt) \<and>
    \<not> (r = discharge_now \<and> b < 0 \<and> batteryLevel s > 20) \<and>
    \<not> (r = prepare_for_peak \<and> b > 10 \<and> batteryLevel s < 90) \<and>
    \<not> (r = maintain \<and> b > 20 \<and> batteryLevel s < 80) \<and>
    \<not> (r = maintain \<and> b < - 20 \<and> batteryLevel s > 30) \<longrightarrow>
      batteryLevel (snd (calculateBatteryLevel s b opt r)) = batteryLevel s) \<and>
   fst (calculateBatteryLevel s b opt r) =
     max 5 (min 100 (batteryLevel (snd (calculateBatteryLevel s b opt r)))) \<and>
   mode (snd (calculateBatteryLevel s b opt r)) = mode s \<and>
   weatherApiKey (snd (calculateBatteryLevel s b opt r)) = weatherApiKey s \<and>
   fst (calculateBatteryLevel (s\<lparr>batteryLevel := 60\<rparr>) 50 80 charge_now) = 62 \<and>
   fst (calculateBatteryLevel (s\<lparr>batteryLevel := 25\<rparr>) (- 40) opt discharge_now) = 23.5"
  by (cases r) (simp_all add: calculateBatteryLevel_def Let_def)

text \<open>
  The two scenarios of the claim, and one call per remaining row of the table, each with
  the conditions of its row checked.
\<close>

theorem calculateBatteryLevel_table_witness:
  "((50::real) > 0 \<and> batteryLevel (new_simulator ''online'' []) < 80) \<and>
   batteryLevel (snd (calculateBatteryLevel (new_simulator ''online'' []) 50 80 charge_now)) = 62 \<and>
   ((- 40::real) < 0 \<and> batteryLevel (new_simulator ''online'' []\<lparr>batteryLevel := 25\<rparr>) > 20) \<and>
   batteryLevel (snd (calculateBatteryLevel (new_simulator ''online'' []\<lparr>batteryLevel := 25\<rparr>)
                        (- 40) 60 discharge_now)) = 23.5 \<and>
   ((25::real) > 10 \<and> batteryLevel (new_simulator ''online'' []) < 90) \<and>
   batteryLevel (snd (calculateBatteryLevel (new_simulator ''online'' []) 25 60 prepare_for_peak)) = 62 \<and>
   ((- 25::real) < - 20 \<and> batteryLevel (new_simulator ''online'' []) > 30) \<and>
   batteryLevel (snd (calculateBatteryLevel (new_simulator ''online'' []) (- 25) 60 maintain)) = 59.5 \<and>
   batteryLevel (snd (calculateBatteryLevel (new_simulator ''online'' []) 5 60 prepare_for_peak)) = 60"
  using
    calculateBatteryLevel_table [where r = charge_now and b = 50 and opt = 80
      and s = "new_simulator ''online'' []"]
    calculateBatteryLevel_table [where r = discharge_now and b = "- 40" and opt = 60
      and s = "new_simulator ''online'' []\<lparr>batteryLevel := 25\<rparr>"]
    calculateBatteryLevel_table [where r = prepare_for_peak and b = 25 and opt = 60
      and s = "new_simulator ''online'' []"]
    calculateBatteryLevel_table [where r = maintain and b = "- 25" and opt = 60
      and s = "new_simulator ''online'' []"]
    calculateBatteryLevel_table [where r = prepare_for_peak and b = 5 and opt = 60
      and s = "new_simulator ''online'' []"]
  by (simp add: new_simulator_def)

text \<open>
  Claim C3. Whatever the balance, the optimal level and the recommendation, the value
  that the battery update returns lies in [5, 100]. A new simulator holds the level 60;
  \<^verbatim>\<open>setMode\<close> leaves the level as it is; and a tick, whatever its two calls do, leaves the
  simulator as it is or as one battery update leaves it.
\<close>

theorem calculateBatteryLevel_clamped:
  "5 \<le> fst (calculateBatteryLevel s b opt r) \<and>
   fst (calculateBatteryLevel s b opt r) \<le> 100 \<and>
   batteryLevel (new_simulator m k) = 60 \<and>
   (\<exists>s'. setMode s m apiKey = Inr s' \<and> batteryLevel s' = batteryLevel s) \<and>
   (snd (generateEnhancedEnergyData_with s synth predict now hour rnd rndc) = s \<or>
    (\<exists>b' opt' r'. snd (generateEnhancedEnergyData_with s synth predict now hour rnd rndc) =
                   snd (calculateBatteryLevel s b' opt' r')))"
proof -
  have "\<exists>s'. setMode s m apiKey = Inr s' \<and> batteryLevel s' = batteryLevel s"
    by (simp add: setMode_def Let_def split: option.splits)
  then show ?thesis
    using tick_state [of s synth predict now hour rnd rndc]
    by (simp add: calculateBatteryLevel_fst new_simulator_def)
qed

text \<open>
  Claim C10. From a new simulator, after any finite sequence of battery updates whose
  optimal levels are at most 95, the stored level is strictly between 18.5 and 97, and a
  further such update returns exactly the level it stores: the clamp changes nothing.
  The optimal level that \<^verbatim>\<open>calculateOptimalBatteryLevel\<close> computes lies in [40, 95], and
  is 60 when the forecast is missing.
\<close>

theorem battery_level_stays_inside:
  assumes "list_all (\<lambda>(b, opt, r). opt \<le> 95) xs" and "opt \<le> 95"
  shows "18.5 < batteryLevel (battery_updates (new_simulator m k) xs) \<and>
         batteryLevel (battery_updates (new_simulator m k) xs) < 97 \<and>
         fst (calculateBatteryLevel (battery_updates (new_simulator m k) xs) b opt r) =
           batteryLevel
             (snd (calculateBatteryLevel (battery_updates (new_simulator m k) xs) b opt r)) \<and>
         40 \<le> calculateOptimalBatteryLevel month w sEff wEff lMult \<and>
         calculateOptimalBatteryLevel month w sEff wEff lMult \<le> 95 \<and>
         (forecast w = None \<longrightarrow> calculateOptimalBatteryLevel month w sEff wEff lMult = 60)"
proof -
  let ?s = "battery_updates (new_simulator m k) xs"
  have inv: "18.5 < batteryLevel ?s \<and> batteryLevel ?s < 97"
    using battery_updates_invariant [OF _ _ assms(1), of "new_simulator m k"]
    by (simp add: new_simulator_def)
  then have "18.5 < batteryLevel (snd (calculateBatteryLevel ?s b opt r)) \<and>
        batteryLevel (snd (calculateBatteryLevel ?s b opt r)) < 97"
    using calculateBatteryLevel_step [of ?s opt b r] assms(2) by simp
  then have ret: "fst (calculateBatteryLevel ?s b opt r) =
      batteryLevel (snd (calculateBatteryLevel ?s b opt r))"
    by (simp add: calculateBatteryLevel_fst)
  have dflt: "forecast w = None \<longrightarrow> calculateOptimalBatteryLevel month w sEff wEff lMult = 60"
    by (simp add: calculateOptimalBatteryLevel_def)
  show ?thesis
    using inv ret calculateOptimalBatteryLevel_range [of month w sEff wEff lMult] dflt
    by blast
qed

theorem battery_level_stays_inside_witness:
  "list_all (\<lambda>(b, opt, r). opt \<le> 95)
     [(50::real, 80::real, charge_now), (- 40, 60, discharge_now)] \<and>
   (95::real) \<le> 95 \<and>
   batteryLevel (battery_updates (new_simulator ''online'' [])
     [(50, 80, charge_now), (- 40, 60, discharge_now)]) = 60.5 \<and>
   fst (calculateBatteryLevel (battery_updates (new_simulator ''online'' [])
     [(50, 80, charge_now), (- 40, 60, discharge_now)]) 100 95 charge_now) = 62.5 \<and>
   forecast (fallbackWeatherData\<lparr>forecast := None\<rparr>) = None \<and>
   calculateOptimalBatteryLevel 1 (fallbackWeatherData\<lparr>forecast := None\<rparr>) 0 0 0 = 60"
  using battery_level_stays_inside
    [of "[(50, 80, charge_now), (- 40, 60, discharge_now)]" 95 "''online''" "[]"
        100 charge_now 1 "fallbackWeatherData\<lparr>forecast := None\<rparr>" 0 0 0]
  by (simp add: calculateBatteryLevel_def new_simulator_def Let_def)

subsection \<open>Efficiency prediction\<close>

text \<open>
  Claim C2 as stated, that the three fields lie in their ranges for every sample, fails
  in double arithmetic. The fallback weather with cloud cover and UV index \<open>-2^1023\<close> and
  visibility 0 has finite fields only; the product of the cloud, temperature and UV
  factors overflows to \<open>-Infinity\<close>, the visibility factor is 0, their product is
  \<^verbatim>\<open>NaN\<close>, and \<^verbatim>\<open>Math.max(0, Math.min(1, NaN))\<close> is \<^verbatim>\<open>NaN\<close>.
\<close>

theorem predictEnergyEfficiency_NaN_counterexample:
  "is_double (cloudCover (fallbackWeatherData
      \<lparr>cloudCover := - (2 ^ 1023), uvIndex := - (2 ^ 1023), visibility := 0\<rparr>)) \<and>
   is_double (uvIndex (fallbackWeatherData
      \<lparr>cloudCover := - (2 ^ 1023), uvIndex := - (2 ^ 1023), visibility := 0\<rparr>)) \<and>
   is_double (visibility (fallbackWeatherData
      \<lparr>cloudCover := - (2 ^ 1023), uvIndex := - (2 ^ 1023), visibility := 0\<rparr>)) \<and>
   is_double (temperature (fallbackWeatherData
      \<lparr>cloudCover := - (2 ^ 1023), uvIndex := - (2 ^ 1023), visibility := 0\<rparr>)) \<and>
   solarEfficiency_double (predictEnergyEfficiency_double 4
     (fallbackWeatherData
        \<lparr>cloudCover := - (2 ^ 1023), uvIndex := - (2 ^ 1023), visibility := 0\<rparr>) None) = NaN"
  by (simp add: predictEnergyEfficiency_double_def solarEfficiency_unclamped_def Let_def
      fallbackWeatherData_def num_sub_def to_number_def overflow_threshold_def
      is_double_def MAX_VALUE_def getCurrentSeason_def rajashtanSeasonalFactors_def)

text \<open>
  Claim C2, amended. For every weather sample whose numeric fields are finite doubles
  and whose cloud cover lies in its documented range [0, 100], with or without sensor
  data, the prediction has its solar and its wind efficiency in [0, 1] and its load
  multiplier in [0.3, 2.5], also where a product overflows to an infinity on the way. The
  clamp is the last step: each field is \<^verbatim>\<open>Math.max(lo, Math.min(hi, x))\<close> of the value
  \<open>x\<close> that all the factors have produced. On these samples the three fields are the
  ones that the exact reading \<open>predictEnergyEfficiency\<close> gives.
\<close>

theorem predictEnergyEfficiency_double_ranges:
  assumes "0 \<le> cloudCover w" "cloudCover w \<le> 100"
    and "is_double (temperature w)" "is_double (humidity w)" "is_double (windSpeed w)"
    and "is_double (uvIndex w)" "is_double (visibility w)"
  shows
    "(\<exists>s. solarEfficiency_double (predictEnergyEfficiency_double month w iot) = Val s \<and>
          0 \<le> s \<and> s \<le> 1) \<and>
     (\<exists>v. windEfficiency_double (predictEnergyEfficiency_double month w iot) = Val v \<and>
          0 \<le> v \<and> v \<le> 1) \<and>
     (\<exists>l. loadMultiplier_double (predictEnergyEfficiency_double month w iot) = Val l \<and>
          0.3 \<le> l \<and> l \<le> 2.5) \<and>
     solarEfficiency_double (predictEnergyEfficiency_double month w iot) =
       Math_max (Val 0) (Math_min (Val 1) (solarEfficiency_unclamped month w iot)) \<and>
     windEfficiency_double (predictEnergyEfficiency_double month w iot) =
       Math_max (Val 0) (Math_min (Val 1) (windEfficiency_unclamped w)) \<and>
     loadMultiplier_double (predictEnergyEfficiency_double month w iot) =
       Math_max (Val 0.3) (Math_min (Val 2.5) (loadMultiplier_unclamped month w)) \<and>
     solarEfficiency_double (predictEnergyEfficiency_double month w iot) =
       Val (solarEfficiency (predictEnergyEfficiency month w iot)) \<and>
     windEfficiency_double (predictEnergyEfficiency_double month w iot) =
       Val (windEfficiency (predictEnergyEfficiency month w iot)) \<and>
     loadMultiplier_double (predictEnergyEfficiency_double month w iot) =
       Val (loadMultiplier (predictEnergyEfficiency month w iot))"
proof -
  have s: "solarEfficiency_double (predictEnergyEfficiency_double month w iot) =
       Val (solarEfficiency (predictEnergyEfficiency month w iot))"
    using assms by (intro solarEfficiency_double_exact)
  have v: "windEfficiency_double (predictEnergyEfficiency_double month w iot) =
       Val (windEfficiency (predictEnergyEfficiency month w iot))"
    using assms by (intro windEfficiency_double_exact)
  have l: "loadMultiplier_double (predictEnergyEfficiency_double month w iot) =
       Val (loadMultiplier (predictEnergyEfficiency month w iot))"
    using assms by (intro loadMultiplier_double_exact)
  have rs: "0 \<le> solarEfficiency (predictEnergyEfficiency month w iot) \<and>
      solarEfficiency (predictEnergyEfficiency month w iot) \<le> 1"
    unfolding solarEfficiency_predict by simp
  have rw: "0 \<le> windEfficiency (predictEnergyEfficiency month w iot) \<and>
      windEfficiency (predictEnergyEfficiency month w iot) \<le> 1"
    unfolding windEfficiency_predict by simp
  have rl: "0.3 \<le> loadMultiplier (predictEnergyEfficiency month w iot) \<and>
      loadMultiplier (predictEnergyEfficiency month w iot) \<le> 2.5"
    unfolding loadMultiplier_predict by simp
  have d: "solarEfficiency_double (predictEnergyEfficiency_double month w iot) =
       Math_max (Val 0) (Math_min (Val 1) (solarEfficiency_unclamped month w iot)) \<and>
     windEfficiency_double (predictEnergyEfficiency_double month w iot) =
       Math_max (Val 0) (Math_min (Val 1) (windEfficiency_unclamped w)) \<and>
     loadMultiplier_double (predictEnergyEfficiency_double month w iot) =
       Math_max (Val 0.3) (Math_min (Val 2.5) (loadMultiplier_unclamped month w))"
    by (simp add: predictEnergyEfficiency_double_def)
  from s v l rs rw rl d show ?thesis by blast
qed

text \<open>
  The fallback weather in April without sensors, and the same weather with UV index and
  visibility \<open>-2^1023\<close>: there the product overflows to \<open>+Infinity\<close> and the clamp gives 1.
\<close>

theorem predictEnergyEfficiency_double_ranges_witness:
  "(0 \<le> cloudCover fallbackWeatherData \<and> cloudCover fallbackWeatherData \<le> 100 \<and>
    is_double (temperature fallbackWeatherData) \<and> is_double (humidity fallbackWeatherData) \<and>
    is_double (windSpeed fallbackWeatherData) \<and> is_double (uvIndex fallbackWeatherData) \<and>
    is_double (visibility fallbackWeatherData)) \<and>
   (\<exists>s. solarEfficiency_double (predictEnergyEfficiency_double 4 fallbackWeatherData None)
          = Val s \<and> 0 \<le> s \<and> s \<le> 1) \<and>
   solarEfficiency_double (predictEnergyEfficiency_double 4 fallbackWeatherData None)
     = Val 0.6468 \<and>
   loadMultiplier_double (predictEnergyEfficiency_double 4 fallbackWeatherData None) = Val 1 \<and>
   (is_double (uvIndex (fallbackWeatherData
      \<lparr>uvIndex := - (2 ^ 1023), visibility := - (2 ^ 1023)\<rparr>)) \<and>
    is_double (visibility (fallbackWeatherData
      \<lparr>uvIndex := - (2 ^ 1023), visibility := - (2 ^ 1023)\<rparr>))) \<and>
   solarEfficiency_unclamped 4
     (fallbackWeatherData\<lparr>uvIndex := - (2 ^ 1023), visibility := - (2 ^ 1023)\<rparr>) None
     = PosInfinity \<and>
   solarEfficiency_double (predictEnergyEfficiency_double 4
     (fallbackWeatherData\<lparr>uvIndex := - (2 ^ 1023), visibility := - (2 ^ 1023)\<rparr>) None)
     = Val 1"
proof -
  let ?w = "fallbackWeatherData\<lparr>uvIndex := - (2 ^ 1023), visibility := - (2 ^ 1023)\<rparr>"
  have h: "0 \<le> cloudCover fallbackWeatherData \<and> cloudCover fallbackWeatherData \<le> 100 \<and>
    is_double (temperature fallbackWeatherData) \<and> is_double (humidity fallbackWeatherData) \<and>
    is_double (windSpeed fallbackWeatherData) \<and> is_double (uvIndex fallbackWeatherData) \<and>
    is_double (visibility fallbackWeatherData)"
    by (simp add: fallbackWeatherData_def is_double_def MAX_VALUE_def)
  from h predictEnergyEfficiency_double_ranges [of fallbackWeatherData 4 None]
  have r: "\<exists>s. solarEfficiency_double (predictEnergyEfficiency_double 4 fallbackWeatherData None)
          = Val s \<and> 0 \<le> s \<and> s \<le> 1"
    by blast
  have e: "solarEfficiency_double (predictEnergyEfficiency_double 4 fallbackWeatherData None)
     = Val 0.6468"
    by (simp add: predictEnergyEfficiency_double_def solarEfficiency_unclamped_def Let_def
      fallbackWeatherData_def num_sub_def to_number_def overflow_threshold_def
      getCurrentSeason_def rajashtanSeasonalFactors_def)
  have l: "loadMultiplier_double (predictEnergyEfficiency_double 4 fallbackWeatherData None)
     = Val 1"
    by (simp add: predictEnergyEfficiency_double_def loadMultiplier_unclamped_def Let_def
      fallbackWeatherData_def)
  have h': "is_double (uvIndex ?w) \<and> is_double (visibility ?w)"
    by (simp add: fallbackWeatherData_def is_double_def MAX_VALUE_def)
  have ov: "solarEfficiency_unclamped 4 ?w None = PosInfinity"
    by (simp add: solarEfficiency_unclamped_def Let_def
      fallbackWeatherData_def num_sub_def to_number_def overflow_threshold_def
      getCurrentSeason_def rajashtanSeasonalFactors_def)
  have c: "solarEfficiency_double (predictEnergyEfficiency_double 4 ?w None) = Val 1"
    unfolding predictEnergyEfficiency_double_def EnergyPrediction_double.select_convs ov
    by simp
  from h r e l h' ov c show ?thesis by blast
qed

text \<open>
  Claim C4 as stated, that a wind speed below 3 m/s gives the wind efficiency 0.1 at
  every temperature, fails: the air-density factor is applied to the floor as well. At a
  wind speed of 2 m/s and 30 degrees the efficiency is 0.0975.
\<close>

theorem wind_floor_counterexample:
  "windSpeed (fallbackWeatherData\<lparr>windSpeed := 2\<rparr>) = 2 \<and>
   temperature (fallbackWeatherData\<lparr>windSpeed := 2\<rparr>) = 30 \<and>
   windEfficiency (predictEnergyEfficiency 1 (fallbackWeatherData\<lparr>windSpeed := 2\<rparr>) None)
     = 0.0975 \<and>
   windEfficiency (predictEnergyEfficiency 1 (fallbackWeatherData\<lparr>windSpeed := 2\<rparr>) None)
     \<noteq> 0.1"
  by (simp add: windEfficiency_predict fallbackWeatherData_def)

text \<open>
  Claim C4, amended. For a wind speed below 3 m/s the wind efficiency is the floor 0.1
  scaled by the air-density factor \<open>1 + (25 - temperature) \<cdot> 0.005\<close> and clamped to
  [0, 1]; it is exactly 0.1 at 25 degrees.
\<close>

theorem wind_floor_scaled:
  "windSpeed w < 3 \<Longrightarrow>
   windEfficiency (predictEnergyEfficiency month w iot) =
     max 0 (min 1 (0.1 * (1 + (25 - temperature w) * 0.005))) \<and>
   (temperature w = 25 \<longrightarrow> windEfficiency (predictEnergyEfficiency month w iot) = 0.1)"
  by (simp add: windEfficiency_predict)

theorem wind_floor_scaled_witness:
  "windSpeed (fallbackWeatherData\<lparr>windSpeed := 2, temperature := 25\<rparr>) < 3 \<and>
   temperature (fallbackWeatherData\<lparr>windSpeed := 2, temperature := 25\<rparr>) = 25 \<and>
   windEfficiency (predictEnergyEfficiency 1
     (fallbackWeatherData\<lparr>windSpeed := 2, temperature := 25\<rparr>) None) = 0.1"
  using wind_floor_scaled [of "fallbackWeatherData\<lparr>windSpeed := 2, temperature := 25\<rparr>" 1 None]
  by (simp add: fallbackWeatherData_def)

subsection \<open>Weather synthesis\<close>

text \<open>
  Claim C5. For every hour before 6 or after 19, in every month and for every outcome
  of the random draws, the synthesised weather has the condition \<open>clear_night\<close>.
\<close>

theorem night_is_clear_night:
  "hour < 6 \<or> hour > 19 \<Longrightarrow>
   condition (generateRealisticWeatherData month hour rnd) = clear_night"
  unfolding generateRealisticWeatherData_def Let_def
  by (simp only: WeatherData.select_convs if_True)

theorem night_is_clear_night_witness:
  "((3::real) < 6 \<or> (3::real) > 19) \<and>
   condition (generateRealisticWeatherData 7 3 (\<lambda>i. 0)) = clear_night \<and>
   ((23::real) < 6 \<or> (23::real) > 19) \<and>
   condition (generateRealisticWeatherData 4 23 (\<lambda>i. 1 / 2)) = clear_night"
  using night_is_clear_night [of 3 7 "\<lambda>i. 0"] night_is_clear_night [of 23 4 "\<lambda>i. 1 / 2"]
  by simp

text \<open>
  Claim C8 as stated, that the deterministic part of the temperature is greatest near
  hour 18, fails: in summer its value at hour 12 exceeds its values at the hours 17, 18
  and 19, and with the jitter at zero the synthesised temperature is 47 at hour 12 and 35
  at hour 18.
\<close>

theorem temperature_peak_counterexample:
  "getSeasonalBaseTemperature summer + sin ((18 - 6) / 12 * pi) * getTemperatureRange summer
     < getSeasonalBaseTemperature summer + sin ((12 - 6) / 12 * pi) * getTemperatureRange summer \<and>
   getSeasonalBaseTemperature summer + sin ((17 - 6) / 12 * pi) * getTemperatureRange summer
     < getSeasonalBaseTemperature summer + sin ((12 - 6) / 12 * pi) * getTemperatureRange summer \<and>
   getSeasonalBaseTemperature summer + sin ((19 - 6) / 12 * pi) * getTemperatureRange summer
     < getSeasonalBaseTemperature summer + sin ((12 - 6) / 12 * pi) * getTemperatureRange summer \<and>
   temperature (generateRealisticWeatherData 4 18 (\<lambda>i. 1 / 2)) = 35 \<and>
   temperature (generateRealisticWeatherData 4 12 (\<lambda>i. 1 / 2)) = 47"
proof -
  have sn: "getCurrentSeason 4 = summer"
    by (simp add: getCurrentSeason_def rajashtanSeasonalFactors_def)
  have a: "temperature (generateRealisticWeatherData 4 18 (\<lambda>i. 1 / 2)) = 35"
    unfolding temperature_generate sn sin_hour_18 by (simp add: Math_round_def)
  have b: "temperature (generateRealisticWeatherData 4 12 (\<lambda>i. 1 / 2)) = 47"
    unfolding temperature_generate sn sin_hour_12 by (simp add: Math_round_def)
  have c: "sin ((19 - 6) / 12 * pi) * 12 < (12::real)"
    using sin_hour_19 by simp
  have d: "sin ((17 - 6) / 12 * pi) * 12 < (12::real)"
    using sin_hour_17 by simp
  show ?thesis
    unfolding sin_hour_18 sin_hour_12 using a b c d by simp
qed

text \<open>
  Claim C8, amended. For every season the deterministic part of the temperature,
  \<open>base + sin ((hour - 6) / 12 \<cdot> \<pi>) \<cdot> range\<close>, is greatest at hour 12, where it is
  \<open>base + range\<close>; at hour 18 it is back at \<open>base\<close>. The synthesised temperature is this
  value plus the jitter \<open>(random - 0.5) \<cdot> 3\<close>, rounded to one decimal, and the jitter lies
  in [-1.5, 1.5) for a draw in [0, 1).
\<close>

theorem temperature_peak_at_noon:
  "getSeasonalBaseTemperature sn + sin ((hour - 6) / 12 * pi) * getTemperatureRange sn
     \<le> getSeasonalBaseTemperature sn + sin ((12 - 6) / 12 * pi) * getTemperatureRange sn \<and>
   getSeasonalBaseTemperature sn + sin ((12 - 6) / 12 * pi) * getTemperatureRange sn
     = getSeasonalBaseTemperature sn + getTemperatureRange sn \<and>
   getSeasonalBaseTemperature sn + sin ((18 - 6) / 12 * pi) * getTemperatureRange sn
     = getSeasonalBaseTemperature sn \<and>
   temperature (generateRealisticWeatherData month hour rnd) =
     Math_round ((getSeasonalBaseTemperature (getCurrentSeason month)
                  + sin ((hour - 6) / 12 * pi) * getTemperatureRange (getCurrentSeason month)
                  + (rnd 0 - 0.5) * 3) * 10) / 10 \<and>
   (0 \<le> rnd 0 \<and> rnd 0 < 1 \<longrightarrow> - 1.5 \<le> (rnd 0 - 0.5) * 3 \<and> (rnd 0 - 0.5) * 3 < 1.5)"
proof -
  have "sin ((hour - 6) / 12 * pi) * getTemperatureRange sn \<le> 1 * getTemperatureRange sn"
    using getTemperatureRange_pos [of sn] sin_le_one [of "(hour - 6) / 12 * pi"]
    by (intro mult_right_mono) simp_all
  then have le: "getSeasonalBaseTemperature sn + sin ((hour - 6) / 12 * pi) * getTemperatureRange sn
     \<le> getSeasonalBaseTemperature sn + sin ((12 - 6) / 12 * pi) * getTemperatureRange sn"
    unfolding sin_hour_12 by simp
  have jit: "0 \<le> rnd 0 \<and> rnd 0 < 1 \<longrightarrow> - 1.5 \<le> (rnd 0 - 0.5) * 3 \<and> (rnd 0 - 0.5) * 3 < 1.5"
    by auto
  show ?thesis
    using le jit temperature_generate [of month hour rnd]
    unfolding sin_hour_12 sin_hour_18 by simp
qed

theorem temperature_peak_at_noon_witness:
  "((0::real) \<le> 1 / 4 \<and> (1 / 4 :: real) < 1) \<and>
   (- 1.5 \<le> ((1 / 4 :: real) - 0.5) * 3 \<and> ((1 / 4 :: real) - 0.5) * 3 < 1.5) \<and>
   getSeasonalBaseTemperature winter + sin ((18 - 6) / 12 * pi) * getTemperatureRange winter
     = getSeasonalBaseTemperature winter"
proof -
  note t = temperature_peak_at_noon [of winter 18 1 "\<lambda>i. 1 / 4"]
  have h: "(0::real) \<le> 1 / 4 \<and> (1 / 4 :: real) < 1"
    by simp
  from t h show ?thesis by blast
qed

subsection \<open>The tick\<close>

text \<open>
  Claim C6. The tick returns a record whatever its two calls do. When the weather
  synthesis throws or returns nothing, when the weather sample has no forecast, or when
  the prediction throws, the result is the fixed fallback: weather \<open>sunny\<close>, temperature
  30, battery at 65 percent, forecast \<open>Surplus\<close>, the fallback prediction, and the
  simulator as it was.
\<close>

theorem fallback_on_failure:
  "(synth = Inl e \<longrightarrow>
      generateEnhancedEnergyData_with s synth predict now hour rnd rndc =
        generateEnhancedEnergyData_catch s now rndc) \<and>
   (synth = Inr None \<longrightarrow>
      generateEnhancedEnergyData_with s synth predict now hour rnd rndc =
        generateEnhancedEnergyData_catch s now rndc) \<and>
   (synth = Inr (Some wd) \<and> forecast wd = None \<longrightarrow>
      generateEnhancedEnergyData_with s synth predict now hour rnd rndc =
        generateEnhancedEnergyData_catch s now rndc) \<and>
   (synth = Inr (Some wd) \<and>
    predict wd (if mode s = ''offline'' then Some (generateIoTSensorData wd rnd) else None)
      = Inl e \<longrightarrow>
      generateEnhancedEnergyData_with s synth predict now hour rnd rndc =
        generateEnhancedEnergyData_catch s now rndc) \<and>
   (generateEnhancedEnergyData_try s synth predict now hour rnd = Inl e \<longrightarrow>
      generateEnhancedEnergyData_with s synth predict now hour rnd rndc =
        generateEnhancedEnergyData_catch s now rndc) \<and>
   energyData (fst (generateEnhancedEnergyData_catch s now rndc)) =
     \<lparr>timestamp = now, solar_gen_kW = 200, wind_gen_kW = 60, load_demand_kW = 180,
      battery_soc_percent = 65, grid_import_kW = 0, grid_export_kW = 80, weather = sunny,
      forecast_label = Surplus, temperature_C = 30, carbon_saved_kg = 213.2\<rparr> \<and>
   prediction (fst (generateEnhancedEnergyData_catch s now rndc)) =
     \<lparr>solarEfficiency = 0.8, windEfficiency = 0.6, loadMultiplier = 1.0,
      batteryOptimalCharge = 60, recommendation = maintain\<rparr> \<and>
   snd (generateEnhancedEnergyData_catch s now rndc) = s"
  by (simp add: generateEnhancedEnergyData_with_def generateEnhancedEnergyData_try_def
      generateEnhancedEnergyData_catch_def fallbackEnergyData_def fallbackPrediction_def Let_def)

text \<open>
  A synthesis that throws, and a weather sample without forecast handed to the
  predictor of the class.
\<close>

theorem fallback_on_failure_witness:
  "(Inl (Error ''boom'') :: error + WeatherData option) = Inl (Error ''boom'') \<and>
   battery_soc_percent (energyData (fst (generateEnhancedEnergyData_with
      (new_simulator ''online'' []) (Inl (Error ''boom''))
      (\<lambda>wd iot. Inr (predictEnergyEfficiency 4 wd iot)) ''t'' 12 (\<lambda>i. 0) (\<lambda>i. 0)))) = 65 \<and>
   (Inr (Some (fallbackWeatherData\<lparr>forecast := None\<rparr>)) :: error + WeatherData option)
     = Inr (Some (fallbackWeatherData\<lparr>forecast := None\<rparr>)) \<and>
   forecast (fallbackWeatherData\<lparr>forecast := None\<rparr>) = None \<and>
   weather (energyData (fst (generateEnhancedEnergyData_with
      (new_simulator ''online'' []) (Inr (Some (fallbackWeatherData\<lparr>forecast := None\<rparr>)))
      (\<lambda>wd iot. Inr (predictEnergyEfficiency 4 wd iot)) ''t'' 12 (\<lambda>i. 0) (\<lambda>i. 0)))) = sunny"
  using
    fallback_on_failure [of "Inl (Error ''boom'')" "Error ''boom''" "new_simulator ''online'' []"
      "\<lambda>wd iot. Inr (predictEnergyEfficiency 4 wd iot)" "''t''" 12 "\<lambda>i. 0" "\<lambda>i. 0"]
    fallback_on_failure [of "Inr (Some (fallbackWeatherData\<lparr>forecast := None\<rparr>))" _
      "new_simulator ''online'' []"
      "\<lambda>wd iot. Inr (predictEnergyEfficiency 4 wd iot)" "''t''" 12 "\<lambda>i. 0" "\<lambda>i. 0"
      "fallbackWeatherData\<lparr>forecast := None\<rparr>"]
  by simp

text \<open>
  Claim C7. In the record of a tick the grid import is \<open>max 0 (- balance)\<close> and the grid
  export is \<open>max 0 balance\<close>, each rounded to two decimals, for the one signed balance
  \<open>solar + wind - load\<close> of that tick; so one of the two is zero and they are never both
  positive. The last holds for the fallback record as well, whatever the two calls of the
  tick do.
\<close>

theorem grid_import_export_exclusive:
  "grid_import_kW (energyData (fst (generateEnhancedEnergyData s now month hour rnd))) =
     Math_round (max 0
       (- (300 * solarEfficiency (prediction (fst (generateEnhancedEnergyData s now month hour rnd)))
               * getDaytimeFactor hour
           + 100 * windEfficiency (prediction (fst (generateEnhancedEnergyData s now month hour rnd)))
           - 200 * loadMultiplier (prediction (fst (generateEnhancedEnergyData s now month hour rnd)))
               * getLoadPattern hour)) * 100) / 100 \<and>
   grid_export_kW (energyData (fst (generateEnhancedEnergyData s now month hour rnd))) =
     Math_round (max 0
       (300 * solarEfficiency (prediction (fst (generateEnhancedEnergyData s now month hour rnd)))
            * getDaytimeFactor hour
        + 100 * windEfficiency (prediction (fst (generateEnhancedEnergyData s now month hour rnd)))
        - 200 * loadMultiplier (prediction (fst (generateEnhancedEnergyData s now month hour rnd)))
            * getLoadPattern hour) * 100) / 100 \<and>
   (grid_import_kW (energyData (fst (generateEnhancedEnergyData s now month hour rnd))) = 0 \<or>
    grid_export_kW (energyData (fst (generateEnhancedEnergyData s now month hour rnd))) = 0) \<and>
   \<not> (0 < grid_import_kW (energyData (fst (generateEnhancedEnergyData s now month hour rnd))) \<and>
      0 < grid_export_kW (energyData (fst (generateEnhancedEnergyData s now month hour rnd)))) \<and>
   \<not> (0 < grid_import_kW (energyData
            (fst (generateEnhancedEnergyData_with s synth predict now hour rnd rndc))) \<and>
      0 < grid_export_kW (energyData
            (fst (generateEnhancedEnergyData_with s synth predict now hour rnd rndc))))"
proof -
  let ?r = "fst (generateEnhancedEnergyData s now month hour rnd)"
  let ?bal = "300 * solarEfficiency (prediction ?r) * getDaytimeFactor hour
                + 100 * windEfficiency (prediction ?r)
                - 200 * loadMultiplier (prediction ?r) * getLoadPattern hour"
  have i: "grid_import_kW (energyData ?r) = Math_round (max 0 (- ?bal) * 100) / 100"
    unfolding tick_is_record record_grid_import record_prediction by (rule refl)
  have e: "grid_export_kW (energyData ?r) = Math_round (max 0 ?bal * 100) / 100"
    unfolding tick_is_record record_grid_export record_prediction by (rule refl)
  have x: "grid_import_kW (energyData ?r) = 0 \<or> grid_export_kW (energyData ?r) = 0"
    unfolding i e by (rule grid_exclusive)
  have g: "\<not> (0 < grid_import_kW (energyData
                 (fst (generateEnhancedEnergyData_with s synth predict now hour rnd rndc))) \<and>
      0 < grid_export_kW (energyData
                 (fst (generateEnhancedEnergyData_with s synth predict now hour rnd rndc))))"
  proof (cases "generateEnhancedEnergyData_try s synth predict now hour rnd")
    case (Inl err)
    then show ?thesis
      by (simp add: generateEnhancedEnergyData_with_def generateEnhancedEnergyData_catch_def
          fallbackEnergyData_def)
  next
    case (Inr y)
    then obtain wd iot p where y: "y = generateEnhancedEnergyData_record s wd iot p now hour"
      using try_Inr_is_record by blast
    have w: "generateEnhancedEnergyData_with s synth predict now hour rnd rndc = y"
      using Inr by (simp add: generateEnhancedEnergyData_with_def)
    show ?thesis
      unfolding w y record_grid_import record_grid_export
      using grid_exclusive [of "300 * solarEfficiency p * getDaytimeFactor hour
                         + 100 * windEfficiency p
                         - 200 * loadMultiplier p * getLoadPattern hour"]
      by auto
  qed
  from i e x g show ?thesis by auto
qed

text \<open>
  A whole tick evaluated: December, noon, online, every draw equal to one half. The
  weather is 26 degrees with 25 percent cloud cover and 4.5 m/s wind; generation falls
  short of the load by 49.53 kW, which is imported, and nothing is exported.
\<close>

lemma winter_noon_weather:
  "temperature (generateRealisticWeatherData 12 12 (\<lambda>i. 1 / 2)) = 26"
  "cloudCover (generateRealisticWeatherData 12 12 (\<lambda>i. 1 / 2)) = 25"
  "windSpeed (generateRealisticWeatherData 12 12 (\<lambda>i. 1 / 2)) = 4.5"
  "humidity (generateRealisticWeatherData 12 12 (\<lambda>i. 1 / 2)) = 57.5"
  "uvIndex (generateRealisticWeatherData 12 12 (\<lambda>i. 1 / 2)) = 7"
  "visibility (generateRealisticWeatherData 12 12 (\<lambda>i. 1 / 2)) = 11.5"
  by (simp_all add: generateRealisticWeatherData_def Let_def getCurrentSeason_def
      rajashtanSeasonalFactors_def Math_round_def)

lemma winter_noon_prediction:
  "solarEfficiency (predictEnergyEfficiency 12 (generateRealisticWeatherData 12 12 (\<lambda>i. 1 / 2)) None)
     = 0.5882625"
  "windEfficiency (predictEnergyEfficiency 12 (generateRealisticWeatherData 12 12 (\<lambda>i. 1 / 2)) None)
     = 0.139921875"
  "loadMultiplier (predictEnergyEfficiency 12 (generateRealisticWeatherData 12 12 (\<lambda>i. 1 / 2)) None)
     = 1"
  by (simp_all add: solarEfficiency_predict windEfficiency_predict loadMultiplier_predict
      winter_noon_weather getCurrentSeason_def rajashtanSeasonalFactors_def power2_eq_square)

lemma winter_noon_tick_prediction:
  "prediction (fst (generateEnhancedEnergyData (new_simulator ''online'' []) ''t'' 12 12 (\<lambda>i. 1 / 2)))
     = predictEnergyEfficiency 12 (generateRealisticWeatherData 12 12 (\<lambda>i. 1 / 2)) None"
  unfolding tick_is_record record_prediction by (simp add: new_simulator_def)

lemma noon_factors: "getDaytimeFactor 12 = 1" "getLoadPattern 12 = 1.2"
  by (simp_all add: getDaytimeFactor_def getLoadPattern_def)

theorem grid_import_export_exclusive_witness:
  "grid_import_kW (energyData (fst (generateEnhancedEnergyData
      (new_simulator ''online'' []) ''t'' 12 12 (\<lambda>i. 1 / 2)))) = 49.53 \<and>
   grid_export_kW (energyData (fst (generateEnhancedEnergyData
      (new_simulator ''online'' []) ''t'' 12 12 (\<lambda>i. 1 / 2)))) = 0"
  using grid_import_export_exclusive [of "new_simulator ''online'' []" "''t''" 12 12 "\<lambda>i. 1 / 2"]
  unfolding winter_noon_tick_prediction winter_noon_prediction noon_factors
  by (simp add: Math_round_def)

subsection \<open>Mode\<close>

text \<open>
  Claim C9 as stated, that \<^verbatim>\<open>setMode\<close> rejects a mode other than \<^verbatim>\<open>'online'\<close> and
  \<^verbatim>\<open>'offline'\<close>, fails: the call stores the string \<^verbatim>\<open>'bogus'\<close> and returns normally.
\<close>

theorem setMode_counterexample:
  "setMode (new_simulator ''online'' []) ''bogus'' None =
     Inr \<lparr>mode = ''bogus'', weatherApiKey = [], batteryLevel = 60\<rparr>"
  by (simp add: setMode_def new_simulator_def)

text \<open>
  Claim C9, amended. \<^verbatim>\<open>setMode\<close> checks nothing at run time: for every mode string it
  returns normally, with the string stored as the mode, the key stored when one is given
  and not empty, and the battery level untouched. Only the static type \<^verbatim>\<open>SystemMode\<close>
  keeps other strings away.
\<close>

theorem setMode_accepts_every_mode:
  "\<exists>s'. setMode s m apiKey = Inr s' \<and> mode s' = m \<and> batteryLevel s' = batteryLevel s \<and>
        weatherApiKey s' =
          (case apiKey of
             None \<Rightarrow> weatherApiKey s
           | Some k \<Rightarrow> if k = [] then weatherApiKey s else k)"
  by (simp add: setMode_def Let_def split: option.splits)

end
